theory Spec2Isabelle
  imports Complex_Main "HOL-Library.AList"
begin

section \<open>Values of the scene DSL\<close>

text \<open>
  The scene description reaches the program as the result of \<^verbatim>\<open>JSON.parse\<close>, typed
  \<^verbatim>\<open>any\<close>: the model works on untyped values. A number is an IEEE-754 double: a
  finite one is the rational it denotes (\<open>Fin 0\<close> is \<open>+0\<close>), \<open>NegZero\<close> is \<open>-0\<close>.
  An object is the list of its own properties in insertion order; of a key listed twice
  the first entry counts (\<open>own_props\<close>). The rule of the language that enumerates
  integer-like keys first is not modelled: no statement below depends on where a key
  stands. Strings are lists of 8-bit characters, so the model covers texts whose code
  units are below 256.
\<close>

datatype jsnum = NaN | PosInf | NegInf | NegZero | Fin rat

datatype jsval =
    JUndefined
  | JNull
  | JBool bool
  | JNum jsnum
  | JStr string
  | JArr "jsval list"
  | JObj "(string \<times> jsval) list"

text \<open>What the program can throw: the \<^verbatim>\<open>SyntaxError\<close> of \<^verbatim>\<open>JSON.parse\<close>, the
  \<^verbatim>\<open>TypeError\<close> of the runtime (a property of \<^verbatim>\<open>null\<close> or \<^verbatim>\<open>undefined\<close>, a call of
  something that is no function, an object without primitive value), and the
  \<^verbatim>\<open>new Error(message)\<close> of \<^verbatim>\<open>DSLParser.parse\<close>.\<close>

datatype error =
    SyntaxError string
  | TypeError
  | Error string

definition bind :: "error + 'a \<Rightarrow> ('a \<Rightarrow> error + 'b) \<Rightarrow> error + 'b" where
  "bind m f = (case m of Inl e \<Rightarrow> Inl e | Inr x \<Rightarrow> f x)"

fun sequence :: "(error + 'a) list \<Rightarrow> error + 'a list" where
  "sequence [] = Inr []"
| "sequence (m # ms) = bind m (\<lambda>y. bind (sequence ms) (\<lambda>ys. Inr (y # ys)))"

definition mapM :: "('a \<Rightarrow> error + 'b) \<Rightarrow> 'a list \<Rightarrow> error + 'b list" where
  "mapM f xs = sequence (map f xs)"

subsection \<open>Decimal digits\<close>

definition is_digit :: "char \<Rightarrow> bool" where
  "is_digit c = (48 \<le> (of_char c :: int) \<and> (of_char c :: int) \<le> 57)"

definition digit_char :: "int \<Rightarrow> char" where
  "digit_char d = char_of (48 + d)"

fun decimal :: "int \<Rightarrow> string" where
  "decimal n =
     (if n < 10 then [digit_char n] else decimal (n div 10) @ [digit_char (n mod 10)])"

declare decimal.simps [simp del]

definition string_of_nat :: "nat \<Rightarrow> string" where
  "string_of_nat n = decimal (int n)"

definition digits_val :: "string \<Rightarrow> int" where
  "digits_val ds = foldl (\<lambda>a c. 10 * a + (of_char c - 48)) 0 ds"

subsection \<open>Doubles\<close>

text \<open>Rounding to the nearest double, ties to even: a positive rational \<open>q\<close> lies in
  the binade of exponent \<open>ilog2 q\<close>, whose doubles are the multiples of
  \<open>2 ^ (ilog2 q - 52)\<close>; below the normal range the spacing is \<open>2 ^ - 1074\<close>; a
  result of \<open>2 ^ 1024\<close> or more is an overflow.\<close>

fun bitlen :: "int \<Rightarrow> int" where
  "bitlen n = (if n \<le> 0 then 0 else 1 + bitlen (n div 2))"

declare bitlen.simps [simp del]

definition pow_int :: "int \<Rightarrow> int \<Rightarrow> rat" where
  "pow_int b e = (if 0 \<le> e then of_int (b ^ nat e) else 1 / of_int (b ^ nat (- e)))"

definition ilog2 :: "rat \<Rightarrow> int" where
  "ilog2 q = (if 1 \<le> q then bitlen \<lfloor>q\<rfloor> - 1 else - bitlen (\<lceil>1 / q\<rceil> - 1))"

definition ilog10 :: "rat \<Rightarrow> int" where
  "ilog10 q =
     (if 1 \<le> q then int (length (decimal \<lfloor>q\<rfloor>)) - 1
      else if \<lceil>1 / q\<rceil> = 1 then 0
      else - int (length (decimal (\<lceil>1 / q\<rceil> - 1))))"

definition round_half_even :: "rat \<Rightarrow> int" where
  "round_half_even t =
     (let f = \<lfloor>t\<rfloor>; r = t - of_int f
      in if r < 1/2 then f else if 1/2 < r then f + 1 else if even f then f else f + 1)"

definition round_pos :: "rat \<Rightarrow> rat option" where
  "round_pos q =
     (let e = max (ilog2 q - 52) (- 1074)
      in if 971 < e then None
         else let m = round_half_even (q / pow_int 2 e)
              in if e = 971 \<and> m = 9007199254740992 then None
                 else Some (of_int m * pow_int 2 e))"

text \<open>The double of a sign and a magnitude.\<close>

definition to_double :: "bool \<Rightarrow> rat \<Rightarrow> jsnum" where
  "to_double neg q =
     (if q = 0 then (if neg then NegZero else Fin 0)
      else case round_pos q of
             None \<Rightarrow> (if neg then NegInf else PosInf)
           | Some v \<Rightarrow> if v = 0 then (if neg then NegZero else Fin 0)
                      else Fin (if neg then - v else v))"

text \<open>The double a numeric literal of the source denotes: \<^verbatim>\<open>0.4\<close> is \<open>dbl (2/5)\<close>.\<close>

definition dbl :: "rat \<Rightarrow> jsnum" where
  "dbl q = to_double (q < 0) \<bar>q\<bar>"

fun is_neg :: "jsnum \<Rightarrow> bool" where
  "is_neg NegInf = True"
| "is_neg NegZero = True"
| "is_neg (Fin q) = (q < 0)"
| "is_neg n = False"

fun is_zero :: "jsnum \<Rightarrow> bool" where
  "is_zero NegZero = True"
| "is_zero (Fin q) = (q = 0)"
| "is_zero n = False"

fun is_finite :: "jsnum \<Rightarrow> bool" where
  "is_finite NegZero = True"
| "is_finite (Fin q) = True"
| "is_finite n = False"

text \<open>The product of two doubles: the exact product, rounded; \<open>0 * Infinity\<close> is
  \<open>NaN\<close>; the sign of a zero or infinite product is the product of the signs.\<close>

fun fmul :: "jsnum \<Rightarrow> jsnum \<Rightarrow> jsnum" where
  "fmul NaN y = NaN"
| "fmul x NaN = NaN"
| "fmul (Fin a) (Fin b) = to_double (is_neg (Fin a) \<noteq> is_neg (Fin b)) \<bar>a * b\<bar>"
| "fmul x y =
     (if is_zero x \<and> is_finite y \<or> is_finite x \<and> is_zero y
      then (if is_neg x \<noteq> is_neg y then NegZero else Fin 0)
      else if is_zero x \<or> is_zero y then NaN
      else if is_neg x \<noteq> is_neg y then NegInf else PosInf)"

text \<open>\<^verbatim>\<open>Number::toString\<close>: the digits \<open>s\<close> of the shortest decimal \<open>s * 10 ^ (n - k)\<close>
  with \<open>k\<close> digits that rounds to the number, the closest one when there are several,
  then the layout by \<open>n\<close>: plain digits, a decimal point, leading zeros, or exponent
  notation.\<close>

definition candidates :: "rat \<Rightarrow> nat \<Rightarrow> int \<Rightarrow> (int \<times> int) list" where
  "candidates q k n =
     (let f = \<lfloor>q / pow_int 10 (n - int k)\<rfloor>
      in [(s, n). s \<leftarrow> [f, f + 1],
            if 10 ^ (k - 1) \<le> s \<and> s < 10 ^ k
            then round_pos (of_int s * pow_int 10 (n - int k)) = Some q else False])"

fun closest :: "rat \<Rightarrow> nat \<Rightarrow> (int \<times> int) list \<Rightarrow> (int \<times> int) option" where
  "closest q k [] = None"
| "closest q k (c # cs) =
     (case closest q k cs of
        None \<Rightarrow> Some c
      | Some c' \<Rightarrow>
          (let d = \<bar>of_int (fst c) * pow_int 10 (snd c - int k) - q\<bar>;
               d' = \<bar>of_int (fst c') * pow_int 10 (snd c' - int k) - q\<bar>
           in if d < d' \<or> (d = d' \<and> even (fst c)) then Some c else Some c'))"

fun shortest :: "rat \<Rightarrow> int \<Rightarrow> nat list \<Rightarrow> (nat \<times> int \<times> int) option" where
  "shortest q n0 [] = None"
| "shortest q n0 (k # ks) =
     (case closest q k (candidates q k n0 @ candidates q k (n0 + 1)) of
        Some (s, n) \<Rightarrow> Some (k, s, n)
      | None \<Rightarrow> shortest q n0 ks)"

definition format_digits :: "nat \<Rightarrow> string \<Rightarrow> int \<Rightarrow> string" where
  "format_digits k ds n =
     (if int k \<le> n \<and> n \<le> 21 then ds @ replicate (nat (n - int k)) CHR ''0''
      else if 0 < n \<and> n \<le> 21 then take (nat n) ds @ ''.'' @ drop (nat n) ds
      else if - 6 < n \<and> n \<le> 0 then ''0.'' @ replicate (nat (- n)) CHR ''0'' @ ds
      else (let e = n - 1;
                es = (if e < 0 then ''-'' else ''+'') @ decimal \<bar>e\<bar>
            in if k = 1 then ds @ ''e'' @ es
               else take 1 ds @ ''.'' @ drop 1 ds @ ''e'' @ es))"

text \<open>A rational that is no double has no numeral: the search finds nothing and the
  result is empty.\<close>

definition pos_str :: "rat \<Rightarrow> string" where
  "pos_str q =
     (case shortest q (ilog10 q + 1) [1..<18] of
        None \<Rightarrow> []
      | Some (k, s, n) \<Rightarrow> format_digits k (decimal s) n)"

fun num_str :: "jsnum \<Rightarrow> string" where
  "num_str NaN = ''NaN''"
| "num_str PosInf = ''Infinity''"
| "num_str NegInf = ''-Infinity''"
| "num_str NegZero = ''0''"
| "num_str (Fin q) =
     (if q = 0 then ''0'' else if q < 0 then ''-'' @ pos_str (- q) else pos_str q)"

subsection \<open>Numeric literals in texts\<close>

text \<open>The value of the digits \<open>ip\<close>, the fraction digits \<open>fp\<close> and the exponent
  \<open>e\<close>.\<close>

definition literal_value :: "string \<Rightarrow> string \<Rightarrow> int \<Rightarrow> rat" where
  "literal_value ip fp e = of_int (digits_val (ip @ fp)) * pow_int 10 (e - int (length fp))"

text \<open>An exponent part \<^verbatim>\<open>e\<close>, sign, digits at the head of the text, or none.\<close>

definition exponent_part :: "string \<Rightarrow> (int \<times> string) option" where
  "exponent_part s =
     (case s of
        [] \<Rightarrow> Some (0, [])
      | c # r \<Rightarrow>
          if c = CHR ''e'' \<or> c = CHR ''E'' then
            (let neg = (take 1 r = ''-'');
                 r' = (if take 1 r = ''-'' \<or> take 1 r = ''+'' then drop 1 r else r);
                 ds = takeWhile is_digit r'
             in if ds = [] then None
                else Some ((if neg then - digits_val ds else digits_val ds),
                           dropWhile is_digit r'))
          else Some (0, s))"

text \<open>The number token of JSON at the head of a text: an optional minus, digits
  without a leading zero, an optional fraction with digits, an optional exponent.\<close>

definition parse_number :: "string \<Rightarrow> (jsnum \<times> string) option" where
  "parse_number s =
     (let neg = (take 1 s = ''-'');
          s1 = (if neg then drop 1 s else s);
          ip = takeWhile is_digit s1;
          s2 = dropWhile is_digit s1;
          dot = (take 1 s2 = ''.'');
          fp = (if dot then takeWhile is_digit (drop 1 s2) else []);
          s3 = (if dot then dropWhile is_digit (drop 1 s2) else s2)
      in if ip = [] \<or> (1 < length ip \<and> take 1 ip = ''0'') \<or> (dot \<and> fp = []) then None
         else case exponent_part s3 of
                None \<Rightarrow> None
              | Some (e, r) \<Rightarrow> Some (to_double neg (literal_value ip fp e), r))"

text \<open>\<^verbatim>\<open>StringToNumber\<close>, the conversion \<^verbatim>\<open>*\<close> applies to a string operand: white space
  trimmed, the empty string is \<open>0\<close>, then a signed decimal literal (digits on at least
  one side of the point), \<^verbatim>\<open>Infinity\<close>, or an unsigned \<^verbatim>\<open>0x\<close>, \<^verbatim>\<open>0o\<close>, \<^verbatim>\<open>0b\<close>
  literal; anything else is \<open>NaN\<close>.\<close>

definition is_str_ws :: "char \<Rightarrow> bool" where
  "is_str_ws c = ((of_char c :: nat) \<in> {9, 10, 11, 12, 13, 32, 160})"

definition trim :: "string \<Rightarrow> string" where
  "trim s = rev (dropWhile is_str_ws (rev (dropWhile is_str_ws s)))"

definition hex_val :: "char \<Rightarrow> int option" where
  "hex_val c =
     (let n = (of_char c :: int)
      in if 48 \<le> n \<and> n \<le> 57 then Some (n - 48)
         else if 97 \<le> n \<and> n \<le> 102 then Some (n - 87)
         else if 65 \<le> n \<and> n \<le> 70 then Some (n - 55)
         else None)"

definition radix_val :: "int \<Rightarrow> string \<Rightarrow> int option" where
  "radix_val b ds =
     (if ds = [] then None
      else foldl (\<lambda>a c. case (a, hex_val c) of
                          (Some n, Some d) \<Rightarrow> if d < b then Some (b * n + d) else None
                        | _ \<Rightarrow> None) (Some 0) ds)"

definition unsigned_decimal :: "string \<Rightarrow> rat option" where
  "unsigned_decimal s =
     (let ip = takeWhile is_digit s;
          s2 = dropWhile is_digit s;
          dot = (take 1 s2 = ''.'');
          fp = (if dot then takeWhile is_digit (drop 1 s2) else []);
          s3 = (if dot then dropWhile is_digit (drop 1 s2) else s2)
      in if ip = [] \<and> fp = [] then None
         else case exponent_part s3 of
                Some (e, []) \<Rightarrow> Some (literal_value ip fp e)
              | _ \<Rightarrow> None)"

definition signed_decimal :: "bool \<Rightarrow> string \<Rightarrow> jsnum" where
  "signed_decimal neg s =
     (if s = ''Infinity'' then (if neg then NegInf else PosInf)
      else case unsigned_decimal s of
             None \<Rightarrow> NaN
           | Some q \<Rightarrow> to_double neg q)"

definition string_to_number :: "string \<Rightarrow> jsnum" where
  "string_to_number str =
     (let s = trim str
      in if s = [] then Fin 0
         else if take 1 s = ''-'' then signed_decimal True (drop 1 s)
         else if take 1 s = ''+'' then signed_decimal False (drop 1 s)
         else if take 2 s = ''0x'' \<or> take 2 s = ''0X'' then
           (case radix_val 16 (drop 2 s) of None \<Rightarrow> NaN | Some n \<Rightarrow> dbl (of_int n))
         else if take 2 s = ''0o'' \<or> take 2 s = ''0O'' then
           (case radix_val 8 (drop 2 s) of None \<Rightarrow> NaN | Some n \<Rightarrow> dbl (of_int n))
         else if take 2 s = ''0b'' \<or> take 2 s = ''0B'' then
           (case radix_val 2 (drop 2 s) of None \<Rightarrow> NaN | Some n \<Rightarrow> dbl (of_int n))
         else signed_decimal False s)"

subsection \<open>Truthiness, typeof, property access\<close>

text \<open>\<^verbatim>\<open>!v\<close> is true for \<^verbatim>\<open>undefined\<close>, \<^verbatim>\<open>null\<close>, \<^verbatim>\<open>false\<close>, \<^verbatim>\<open>0\<close>, \<^verbatim>\<open>-0\<close>,
  \<^verbatim>\<open>NaN\<close> and the empty string.\<close>

fun truthy :: "jsval \<Rightarrow> bool" where
  "truthy JUndefined = False"
| "truthy JNull = False"
| "truthy (JBool b) = b"
| "truthy (JNum n) = (n \<noteq> NaN \<and> n \<noteq> NegZero \<and> n \<noteq> Fin 0)"
| "truthy (JStr s) = (s \<noteq> [])"
| "truthy (JArr xs) = True"
| "truthy (JObj ps) = True"

fun typeof :: "jsval \<Rightarrow> string" where
  "typeof JUndefined = ''undefined''"
| "typeof JNull = ''object''"
| "typeof (JBool b) = ''boolean''"
| "typeof (JNum n) = ''number''"
| "typeof (JStr s) = ''string''"
| "typeof (JArr xs) = ''object''"
| "typeof (JObj ps) = ''object''"

fun isArray :: "jsval \<Rightarrow> bool" where
  "isArray (JArr xs) = True"
| "isArray v = False"

text \<open>\<^verbatim>\<open>a || b\<close> on values.\<close>

definition or_else :: "jsval \<Rightarrow> jsval \<Rightarrow> jsval" where
  "or_else a b = (if truthy a then a else b)"

text \<open>The own enumerable properties of a value, as an object spread \<^verbatim>\<open>{...v}\<close> copies
  them: none for \<^verbatim>\<open>undefined\<close>, \<^verbatim>\<open>null\<close>, booleans and numbers, the indexed elements
  of an array, the indexed characters of a string.\<close>

fun own_props :: "jsval \<Rightarrow> (string \<times> jsval) list" where
  "own_props (JObj ps) = AList.clearjunk ps"
| "own_props (JArr xs) = zip (map string_of_nat [0..<length xs]) xs"
| "own_props (JStr s) = zip (map string_of_nat [0..<length s]) (map (\<lambda>c. JStr [c]) s)"
| "own_props v = []"

text \<open>\<^verbatim>\<open>v.k\<close> for a data key \<open>k\<close>: a \<^verbatim>\<open>TypeError\<close> on \<^verbatim>\<open>undefined\<close> and \<^verbatim>\<open>null\<close>, the own
  property when there is one, \<^verbatim>\<open>undefined\<close> otherwise. (The keys the program reads,
  \<^verbatim>\<open>camera\<close>, \<^verbatim>\<open>position\<close>, \<^verbatim>\<open>type\<close> and so on, name no inherited property of any
  value; \<^verbatim>\<open>length\<close> and the inherited methods are not data keys.)\<close>

definition field :: "jsval \<Rightarrow> string \<Rightarrow> jsval" where
  "field v k = (case map_of (own_props v) k of Some x \<Rightarrow> x | None \<Rightarrow> JUndefined)"

fun get :: "jsval \<Rightarrow> string \<Rightarrow> error + jsval" where
  "get JUndefined k = Inl TypeError"
| "get JNull k = Inl TypeError"
| "get v k = Inr (field v k)"

text \<open>\<^verbatim>\<open>{...base, ...v}\<close>: every own property of \<open>v\<close> is set on the object under
  construction, replacing the value of a key already there and adding a new key at
  the end.\<close>

definition spread :: "jsval \<Rightarrow> (string \<times> jsval) list \<Rightarrow> (string \<times> jsval) list" where
  "spread v base = fold (\<lambda>(k, x) acc. AList.update k x acc) (own_props v) base"

subsection \<open>Conversion to string and to number\<close>

fun join_strings :: "string \<Rightarrow> string list \<Rightarrow> string" where
  "join_strings sep [] = []"
| "join_strings sep [s] = s"
| "join_strings sep (s # ss) = s @ sep @ join_strings sep ss"

text \<open>\<^verbatim>\<open>ToString\<close>, as a template literal applies it. An array is its elements joined
  by commas, \<^verbatim>\<open>undefined\<close> and \<^verbatim>\<open>null\<close> elements giving the empty string. A plain
  object is \<^verbatim>\<open>[object Object]\<close> through the inherited \<^verbatim>\<open>toString\<close>; an own property
  \<^verbatim>\<open>toString\<close>, which is data and no function, hides the inherited method, and the
  conversion throws.\<close>

fun to_string :: "jsval \<Rightarrow> error + string" where
  "to_string JUndefined = Inr ''undefined''"
| "to_string JNull = Inr ''null''"
| "to_string (JBool b) = Inr (if b then ''true'' else ''false'')"
| "to_string (JNum n) = Inr (num_str n)"
| "to_string (JStr s) = Inr s"
| "to_string (JArr xs) =
     bind (sequence (map (\<lambda>x. case x of JUndefined \<Rightarrow> Inr [] | JNull \<Rightarrow> Inr []
                                | _ \<Rightarrow> to_string x) xs))
       (\<lambda>ss. Inr (join_strings '','' ss))"
| "to_string (JObj ps) =
     (if ''toString'' \<in> fst ` set ps then Inl TypeError else Inr ''[object Object]'')"

text \<open>\<^verbatim>\<open>v.join(sep)\<close>: the method exists on arrays only; on any other value the call
  throws.\<close>

definition join :: "jsval \<Rightarrow> string \<Rightarrow> error + string" where
  "join v sep =
     (case v of
        JArr xs \<Rightarrow>
          bind (sequence (map (\<lambda>x. case x of JUndefined \<Rightarrow> Inr [] | JNull \<Rightarrow> Inr []
                                     | _ \<Rightarrow> to_string x) xs))
            (\<lambda>ss. Inr (join_strings sep ss))
      | _ \<Rightarrow> Inl TypeError)"

text \<open>\<^verbatim>\<open>ToNumber\<close>, as \<^verbatim>\<open>*\<close> applies it to an operand; arrays and objects go through
  their string.\<close>

definition to_number :: "jsval \<Rightarrow> error + jsnum" where
  "to_number v =
     (case v of
        JUndefined \<Rightarrow> Inr NaN
      | JNull \<Rightarrow> Inr (Fin 0)
      | JBool b \<Rightarrow> Inr (if b then Fin 1 else Fin 0)
      | JNum n \<Rightarrow> Inr n
      | JStr s \<Rightarrow> Inr (string_to_number s)
      | _ \<Rightarrow> bind (to_string v) (\<lambda>s. Inr (string_to_number s)))"

definition quoted :: "string \<Rightarrow> string" where
  "quoted s = [CHR 0x27] @ s @ [CHR 0x27]"

section \<open>The validator\<close>

text \<open>\<^verbatim>\<open>validateDSL\<close> of \<^verbatim>\<open>types/dsl.ts\<close>. Each property read is the fallible \<open>get\<close>,
  and \<^verbatim>\<open>||\<close> evaluates its right operand only when the left one is false.\<close>

definition validateDSL :: "jsval \<Rightarrow> error + bool" where
  "validateDSL dsl =
     (if \<not> truthy dsl \<or> typeof dsl \<noteq> ''object'' then Inr False
      else bind (get dsl ''camera'') (\<lambda>camera.
        if \<not> truthy camera then Inr False
        else bind (get camera ''position'') (\<lambda>position.
          if \<not> isArray position then Inr False
          else bind (get camera ''lookAt'') (\<lambda>lookAt.
            if \<not> isArray lookAt then Inr False
            else bind (get dsl ''lights'') (\<lambda>lights.
              if \<not> isArray lights then Inr False
              else bind (get dsl ''objects'') (\<lambda>objects.
                if \<not> isArray objects then Inr False
                else Inr True))))))"

section \<open>The normalizer\<close>

definition vec3 :: "rat \<Rightarrow> rat \<Rightarrow> rat \<Rightarrow> jsval" where
  "vec3 x y z = JArr [JNum (Fin x), JNum (Fin y), JNum (Fin z)]"

text \<open>The material literal of \<^verbatim>\<open>normalizeDSL\<close>: four defaults, then the spread of
  \<^verbatim>\<open>obj.material\<close>.\<close>

definition normalizeMaterial :: "jsval \<Rightarrow> jsval" where
  "normalizeMaterial material =
     JObj (spread material
       [(''type'', JStr ''standard''),
        (''metalness'', JNum (Fin (1/2))),
        (''roughness'', JNum (Fin (1/2))),
        (''wireframe'', JBool False)])"

text \<open>The callback of \<^verbatim>\<open>dsl.objects.map\<close>: \<^verbatim>\<open>rotation\<close> and \<^verbatim>\<open>scale\<close> defaults, the
  spread of \<^verbatim>\<open>obj\<close>, then the key \<^verbatim>\<open>material\<close>; \<^verbatim>\<open>obj.material\<close> is a property read.\<close>

definition normalizeObject :: "jsval \<Rightarrow> error + jsval" where
  "normalizeObject obj =
     bind (get obj ''material'') (\<lambda>material.
       Inr (JObj (AList.update ''material'' (normalizeMaterial material)
         (spread obj [(''rotation'', vec3 0 0 0), (''scale'', vec3 1 1 1)]))))"

text \<open>\<^verbatim>\<open>xs.map(f)\<close>: a \<^verbatim>\<open>TypeError\<close> unless \<open>xs\<close> is an array.\<close>

fun array_map :: "(jsval \<Rightarrow> error + jsval) \<Rightarrow> jsval \<Rightarrow> error + jsval" where
  "array_map f (JArr xs) = bind (mapM f xs) (\<lambda>ys. Inr (JArr ys))"
| "array_map f v = Inl TypeError"

definition normalizeCamera :: "jsval \<Rightarrow> jsval" where
  "normalizeCamera camera = JObj (spread camera [(''fov'', JNum (Fin 75))])"

definition normalizeDSL :: "jsval \<Rightarrow> error + jsval" where
  "normalizeDSL dsl =
     bind (get dsl ''camera'') (\<lambda>camera.
     bind (get dsl ''background'') (\<lambda>background.
     bind (get dsl ''objects'') (\<lambda>objects.
     bind (array_map normalizeObject objects) (\<lambda>objects'.
       Inr (JObj
         (AList.update ''objects'' objects'
         (AList.update ''background'' (or_else background (JStr ''#000000''))
         (AList.update ''camera'' (normalizeCamera camera)
         (spread dsl [])))))))))"

section \<open>The code generator\<close>

text \<open>\<^verbatim>\<open>SceneGenerator\<close>. A template literal is the concatenation of its text and of
  the strings of its interpolated values; every interpolation is the fallible
  \<open>to_string\<close>, every property read the fallible \<open>get\<close>.\<close>

definition generateImports :: string where
  "generateImports =
     ''import * as THREE from 'three';\<newline>'' @
     ''import { OrbitControls } from 'three/examples/jsm/controls/OrbitControls.js';''"

definition generateSceneSetup :: "jsval \<Rightarrow> error + string" where
  "generateSceneSetup dsl =
     bind (get dsl ''background'') (\<lambda>background.
     bind (to_string (or_else background (JStr ''#000000''))) (\<lambda>color.
       Inr (''// Create scene\<newline>'' @
            ''const scene = new THREE.Scene();\<newline>'' @
            ''scene.background = new THREE.Color('' @ quoted color @ '');'')))"

text \<open>\<^verbatim>\<open>const { position, lookAt, fov = 75 } = dsl.camera\<close>: the default applies when
  the property is \<^verbatim>\<open>undefined\<close>.\<close>

definition generateCamera :: "jsval \<Rightarrow> error + string" where
  "generateCamera dsl =
     bind (get dsl ''camera'') (\<lambda>camera.
     bind (get camera ''position'') (\<lambda>position.
     bind (get camera ''lookAt'') (\<lambda>lookAt.
     bind (get camera ''fov'') (\<lambda>fov0.
     let fov = (if fov0 = JUndefined then JNum (Fin 75) else fov0) in
     bind (to_string fov) (\<lambda>fovStr.
     bind (join position '', '') (\<lambda>positionStr.
     bind (join lookAt '', '') (\<lambda>lookAtStr.
       Inr (''// Create camera\<newline>'' @
            ''const camera = new THREE.PerspectiveCamera(\<newline>'' @
            ''  '' @ fovStr @ '',\<newline>'' @
            ''  window.innerWidth / window.innerHeight,\<newline>'' @
            ''  0.1,\<newline>'' @
            ''  1000\<newline>'' @
            '');\<newline>'' @
            ''camera.position.set('' @ positionStr @ '');\<newline>'' @
            ''camera.lookAt('' @ lookAtStr @ '');''))))))))"

text \<open>The block of a light that has a position: the three branches of
  \<^verbatim>\<open>generateLight\<close> for \<^verbatim>\<open>directional\<close>, \<^verbatim>\<open>point\<close> and \<^verbatim>\<open>spot\<close> share this text and
  differ in the class name and in the position.\<close>

definition positionedLight :: "string \<Rightarrow> string \<Rightarrow> jsval \<Rightarrow> jsval \<Rightarrow> error + string" where
  "positionedLight varName cls light pos =
     bind (get light ''color'') (\<lambda>color.
     bind (to_string color) (\<lambda>colorStr.
     bind (get light ''intensity'') (\<lambda>intensity.
     bind (to_string intensity) (\<lambda>intensityStr.
     bind (join pos '', '') (\<lambda>posStr.
       Inr (''const '' @ varName @ '' = new THREE.'' @ cls @ ''('' @ quoted colorStr @ '', ''
              @ intensityStr @ '');\<newline>'' @
            varName @ ''.position.set('' @ posStr @ '');\<newline>'' @
            ''scene.add('' @ varName @ '');''))))))"

definition generateLight :: "jsval \<Rightarrow> nat \<Rightarrow> error + string" where
  "generateLight light index =
     bind (get light ''type'') (\<lambda>type.
     bind (to_string type) (\<lambda>typeStr.
     let varName = typeStr @ ''Light'' @ string_of_nat index in
     if type = JStr ''ambient'' then
       bind (get light ''color'') (\<lambda>color.
       bind (to_string color) (\<lambda>colorStr.
       bind (get light ''intensity'') (\<lambda>intensity.
       bind (to_string intensity) (\<lambda>intensityStr.
         Inr (''const '' @ varName @ '' = new THREE.AmbientLight('' @ quoted colorStr @ '', ''
                @ intensityStr @ '');\<newline>'' @
              ''scene.add('' @ varName @ '');'')))))
     else if type = JStr ''directional'' then
       bind (get light ''position'') (\<lambda>position.
         positionedLight varName ''DirectionalLight'' light
           (or_else position (vec3 5 10 (15/2))))
     else if type = JStr ''point'' then
       bind (get light ''position'') (\<lambda>position.
         positionedLight varName ''PointLight'' light
           (or_else position (vec3 0 5 0)))
     else if type = JStr ''spot'' then
       bind (get light ''position'') (\<lambda>position.
         positionedLight varName ''SpotLight'' light
           (or_else position (vec3 0 10 0)))
     else Inr []))"

text \<open>\<^verbatim>\<open>xs.map((x, index) => f(x, index)).join(sep)\<close> for a generator \<open>f\<close> of
  strings.\<close>

definition map_join :: "(jsval \<Rightarrow> nat \<Rightarrow> error + string) \<Rightarrow> jsval \<Rightarrow> string \<Rightarrow> error + string" where
  "map_join f v sep =
     (case v of
        JArr xs \<Rightarrow>
          bind (mapM (\<lambda>(x, index). f x index) (zip xs [0..<length xs]))
            (\<lambda>ss. Inr (join_strings sep ss))
      | _ \<Rightarrow> Inl TypeError)"

definition generateLights :: "jsval \<Rightarrow> error + string" where
  "generateLights dsl =
     bind (get dsl ''lights'') (\<lambda>lights.
     bind (map_join generateLight lights ''\<newline>\<newline>'') (\<lambda>lightsCode.
       Inr (''// Add lights\<newline>'' @ lightsCode)))"

definition generateGeometry :: "jsval \<Rightarrow> error + string" where
  "generateGeometry obj =
     bind (get obj ''type'') (\<lambda>type.
     if type = JStr ''cube'' then
       bind (get obj ''width'') (\<lambda>width.
       bind (get obj ''height'') (\<lambda>height.
       bind (get obj ''depth'') (\<lambda>depth.
       bind (to_string (or_else width (JNum (Fin 1)))) (\<lambda>w.
       bind (to_string (or_else height (JNum (Fin 1)))) (\<lambda>h.
       bind (to_string (or_else depth (JNum (Fin 1)))) (\<lambda>d.
         Inr (''new THREE.BoxGeometry('' @ w @ '', '' @ h @ '', '' @ d @ '')'')))))))
     else if type = JStr ''sphere'' then
       bind (get obj ''radius'') (\<lambda>radius.
       bind (get obj ''segments'') (\<lambda>segments.
       bind (to_string (or_else radius (JNum (Fin 1)))) (\<lambda>r.
       bind (to_string (or_else segments (JNum (Fin 32)))) (\<lambda>seg.
         Inr (''new THREE.SphereGeometry('' @ r @ '', '' @ seg @ '', '' @ seg @ '')'')))))
     else if type = JStr ''plane'' then
       bind (get obj ''width'') (\<lambda>width.
       bind (get obj ''height'') (\<lambda>height.
       bind (to_string (or_else width (JNum (Fin 10)))) (\<lambda>pw.
       bind (to_string (or_else height (JNum (Fin 10)))) (\<lambda>ph.
         Inr (''new THREE.PlaneGeometry('' @ pw @ '', '' @ ph @ '')'')))))
     else if type = JStr ''cylinder'' then
       bind (get obj ''radius'') (\<lambda>radius.
       bind (get obj ''height'') (\<lambda>height.
       bind (to_string (or_else radius (JNum (Fin 1)))) (\<lambda>cr.
       bind (to_string (or_else height (JNum (Fin 2)))) (\<lambda>ch.
         Inr (''new THREE.CylinderGeometry('' @ cr @ '', '' @ cr @ '', '' @ ch @ '', 32)'')))))
     else if type = JStr ''cone'' then
       bind (get obj ''radius'') (\<lambda>radius.
       bind (get obj ''height'') (\<lambda>height.
       bind (to_string (or_else radius (JNum (Fin 1)))) (\<lambda>coneR.
       bind (to_string (or_else height (JNum (Fin 2)))) (\<lambda>coneH.
         Inr (''new THREE.ConeGeometry('' @ coneR @ '', '' @ coneH @ '', 32)'')))))
     else if type = JStr ''torus'' then
       bind (get obj ''radius'') (\<lambda>radius.
       let torusR = or_else radius (JNum (Fin 1)) in
       bind (to_string torusR) (\<lambda>major.
       bind (to_number torusR) (\<lambda>n.
         Inr (''new THREE.TorusGeometry('' @ major @ '', '' @ num_str (fmul n (dbl (2/5)))
                @ '', 16, 100)''))))
     else Inr ''new THREE.BoxGeometry(1, 1, 1)'')"

text \<open>The parameter list of \<^verbatim>\<open>generateMaterial\<close>: \<^verbatim>\<open>metalness\<close> and \<^verbatim>\<open>roughness\<close> are
  pushed when they are not \<^verbatim>\<open>undefined\<close>, \<^verbatim>\<open>wireframe\<close> when it is truthy.\<close>

definition materialParams :: "jsval \<Rightarrow> error + string list" where
  "materialParams material =
     bind (get material ''color'') (\<lambda>color.
     bind (to_string color) (\<lambda>colorStr.
     bind (get material ''metalness'') (\<lambda>metalness.
     bind (if metalness \<noteq> JUndefined
           then bind (to_string metalness) (\<lambda>s. Inr [''metalness: '' @ s])
           else Inr []) (\<lambda>p1.
     bind (get material ''roughness'') (\<lambda>roughness.
     bind (if roughness \<noteq> JUndefined
           then bind (to_string roughness) (\<lambda>s. Inr [''roughness: '' @ s])
           else Inr []) (\<lambda>p2.
     bind (get material ''wireframe'') (\<lambda>wireframe.
     bind (if truthy wireframe
           then bind (to_string wireframe) (\<lambda>s. Inr [''wireframe: '' @ s])
           else Inr []) (\<lambda>p3.
       Inr ([''color: '' @ quoted colorStr] @ p1 @ p2 @ p3)))))))))"

definition generateMaterial :: "jsval \<Rightarrow> error + string" where
  "generateMaterial obj =
     bind (get obj ''material'') (\<lambda>material.
     bind (materialParams material) (\<lambda>params.
     bind (get material ''type'') (\<lambda>type.
     let cls =
       (if type = JStr ''basic'' then ''MeshBasicMaterial''
        else if type = JStr ''standard'' then ''MeshStandardMaterial''
        else if type = JStr ''phong'' then ''MeshPhongMaterial''
        else if type = JStr ''lambert'' then ''MeshLambertMaterial''
        else ''MeshStandardMaterial'')
     in Inr (''new THREE.'' @ cls @ ''({ '' @ join_strings '', '' params @ '' })''))))"

definition generateObject :: "jsval \<Rightarrow> nat \<Rightarrow> error + string" where
  "generateObject obj index =
     bind (generateGeometry obj) (\<lambda>geometry.
     bind (generateMaterial obj) (\<lambda>material.
     let i = string_of_nat index; varName = ''mesh'' @ i in
     bind (get obj ''rotation'') (\<lambda>rotation0.
     bind (get obj ''scale'') (\<lambda>scale0.
     bind (get obj ''position'') (\<lambda>position.
     bind (join position '', '') (\<lambda>positionStr.
     bind (join (or_else rotation0 (vec3 0 0 0)) '', '') (\<lambda>rotationStr.
     bind (join (or_else scale0 (vec3 1 1 1)) '', '') (\<lambda>scaleStr.
       Inr (''const geometry'' @ i @ '' = '' @ geometry @ '';\<newline>'' @
            ''const material'' @ i @ '' = '' @ material @ '';\<newline>'' @
            ''const '' @ varName @ '' = new THREE.Mesh(geometry'' @ i @ '', material'' @ i
              @ '');\<newline>'' @
            varName @ ''.position.set('' @ positionStr @ '');\<newline>'' @
            varName @ ''.rotation.set('' @ rotationStr @ '');\<newline>'' @
            varName @ ''.scale.set('' @ scaleStr @ '');\<newline>'' @
            ''scene.add('' @ varName @ '');'')))))))))"

definition generateObjects :: "jsval \<Rightarrow> error + string" where
  "generateObjects dsl =
     bind (get dsl ''objects'') (\<lambda>objects.
     bind (map_join generateObject objects ''\<newline>\<newline>'') (\<lambda>objectsCode.
       Inr (''// Add objects\<newline>'' @ objectsCode)))"

definition generateRenderer :: string where
  "generateRenderer =
     ''// Create renderer\<newline>'' @
     ''const renderer = new THREE.WebGLRenderer({ antialias: true });\<newline>'' @
     ''renderer.setSize(window.innerWidth, window.innerHeight);\<newline>'' @
     ''renderer.setPixelRatio(window.devicePixelRatio);\<newline>'' @
     ''document.body.appendChild(renderer.domElement);\<newline>'' @
     ''\<newline>'' @
     ''// Add orbit controls\<newline>'' @
     ''const controls = new OrbitControls(camera, renderer.domElement);\<newline>'' @
     ''controls.enableDamping = true;\<newline>'' @
     ''controls.dampingFactor = 0.05;\<newline>'' @
     ''\<newline>'' @
     ''// Handle window resize\<newline>'' @
     ''window.addEventListener('resize', () => {\<newline>'' @
     ''  camera.aspect = window.innerWidth / window.innerHeight;\<newline>'' @
     ''  camera.updateProjectionMatrix();\<newline>'' @
     ''  renderer.setSize(window.innerWidth, window.innerHeight);\<newline>'' @
     ''});''"

definition generateAnimateFunction :: string where
  "generateAnimateFunction =
     ''// Animation loop\<newline>'' @
     ''function animate() {\<newline>'' @
     ''  requestAnimationFrame(animate);\<newline>'' @
     ''  controls.update();\<newline>'' @
     ''  renderer.render(scene, camera);\<newline>'' @
     ''}\<newline>'' @
     ''\<newline>'' @
     ''animate();''"

definition generateScene :: "jsval \<Rightarrow> error + string" where
  "generateScene dsl =
     bind (generateSceneSetup dsl) (\<lambda>sceneSetup.
     bind (generateCamera dsl) (\<lambda>camera.
     bind (generateLights dsl) (\<lambda>lights.
     bind (generateObjects dsl) (\<lambda>objects.
       Inr (generateImports @ ''\<newline>\<newline>'' @
            sceneSetup @ ''\<newline>\<newline>'' @
            camera @ ''\<newline>\<newline>'' @
            lights @ ''\<newline>\<newline>'' @
            objects @ ''\<newline>\<newline>'' @
            generateRenderer @ ''\<newline>\<newline>'' @
            generateAnimateFunction)))))"

text \<open>\<^verbatim>\<open>generateHTML(dsl, title = 'Three.js Scene')\<close>; \<open>None\<close> is the omitted title.\<close>

definition generateHTML :: "jsval \<Rightarrow> string option \<Rightarrow> error + string" where
  "generateHTML dsl title0 =
     (let title = (case title0 of None \<Rightarrow> ''Three.js Scene'' | Some t \<Rightarrow> t) in
      bind (generateScene dsl) (\<lambda>sceneCode.
        Inr (''<!DOCTYPE html>\<newline>'' @
             ''<html lang=\"en\">\<newline>'' @
             ''<head>\<newline>'' @
             ''  <meta charset=\"UTF-8\">\<newline>'' @
             ''  <meta name=\"viewport\" content=\"width=device-width, initial-scale=1.0\">\<newline>'' @
             ''  <title>'' @ title @
             ''</title>\<newline>'' @
             ''  <style>\<newline>'' @
             ''    body {\<newline>'' @
             ''      margin: 0;\<newline>'' @
             ''      overflow: hidden;\<newline>'' @
             ''      font-family: Arial, sans-serif;\<newline>'' @
             ''    }\<newline>'' @
             ''    #info {\<newline>'' @
             ''      position: absolute;\<newline>'' @
             ''      top: 10px;\<newline>'' @
             ''      left: 10px;\<newline>'' @
             ''      color: white;\<newline>'' @
             ''      background: rgba(0, 0, 0, 0.7);\<newline>'' @
             ''      padding: 10px;\<newline>'' @
             ''      border-radius: 5px;\<newline>'' @
             ''      font-size: 14px;\<newline>'' @
             ''    }\<newline>'' @
             ''  </style>\<newline>'' @
             ''</head>\<newline>'' @
             ''<body>\<newline>'' @
             ''  <div id=\"info\">\<newline>'' @
             ''    <strong>'' @ title @
             ''</strong><br>\<newline>'' @
             ''    Left click + drag to rotate<br>\<newline>'' @
             ''    Right click + drag to pan<br>\<newline>'' @
             ''    Scroll to zoom\<newline>'' @
             ''  </div>\<newline>'' @
             ''  \<newline>'' @
             ''  <script type=\"importmap\">\<newline>'' @
             ''    {\<newline>'' @
             ''      \"imports\": {\<newline>'' @
             ''        \"three\": \"https://cdn.jsdelivr.net/npm/three@0.160.0/build/three.module.js\",\<newline>'' @
             ''        \"three/examples/jsm/controls/OrbitControls.js\": \"https://cdn.jsdelivr.net/npm/three@0.160.0/examples/jsm/controls/OrbitControls.js\"\<newline>'' @
             ''      }\<newline>'' @
             ''    }\<newline>'' @
             ''  </script>\<newline>'' @
             ''  \<newline>'' @
             ''  <script type=\"module\">\<newline>'' @ sceneCode @
             ''\<newline>'' @
             ''  </script>\<newline>'' @
             ''</body>\<newline>'' @
             ''</html>'')))"

section \<open>JSON texts\<close>

subsection \<open>\<^verbatim>\<open>JSON.stringify(value, null, 2)\<close>\<close>






subsection \<open>\<^verbatim>\<open>JSON.parse\<close>\<close>

definition is_ws :: "char \<Rightarrow> bool" where
  "is_ws c = ((of_char c :: nat) \<in> {32, 9, 10, 13})"

definition skip_ws :: "string \<Rightarrow> string" where
  "skip_ws s = dropWhile is_ws s"

definition unescape :: "char \<Rightarrow> char option" where
  "unescape e =
     (if e = CHR 0x22 then Some (CHR 0x22)
      else if e = CHR 0x5C then Some (CHR 0x5C)
      else if e = CHR ''/'' then Some (CHR ''/'')
      else if e = CHR ''b'' then Some (CHR 0x08)
      else if e = CHR ''f'' then Some (CHR 0x0C)
      else if e = CHR ''n'' then Some (CHR 0x0A)
      else if e = CHR ''r'' then Some (CHR 0x0D)
      else if e = CHR ''t'' then Some (CHR 0x09)
      else None)"

text \<open>The characters of a string token after its opening quote, up to the closing
  quote. A four-digit hexadecimal escape of 256 or more names a character the 8-bit
  strings of the model do not have; the model has no value for such a text.\<close>

fun parse_chars :: "string \<Rightarrow> (string \<times> string) option" where
  "parse_chars [] = None"
| "parse_chars (c # cs) =
     (if c = CHR 0x22 then Some ([], cs)
      else if c = CHR 0x5C then
        (case cs of
           [] \<Rightarrow> None
         | e # r \<Rightarrow>
             if e = CHR ''u'' then
               (case radix_val 16 (take 4 r) of
                  None \<Rightarrow> None
                | Some n \<Rightarrow>
                    if length r < 4 \<or> 256 \<le> n then None
                    else (case parse_chars (drop 4 r) of
                            None \<Rightarrow> None
                          | Some (s, rest) \<Rightarrow> Some (char_of n # s, rest)))
             else
               (case unescape e of
                  None \<Rightarrow> None
                | Some x \<Rightarrow>
                    (case parse_chars r of
                       None \<Rightarrow> None
                     | Some (s, rest) \<Rightarrow> Some (x # s, rest))))
      else if (of_char c :: nat) < 32 then None
      else (case parse_chars cs of
              None \<Rightarrow> None
            | Some (s, rest) \<Rightarrow> Some (c # s, rest)))"

text \<open>The recursive descent over values, array elements and object members. The
  first argument bounds the number of nested calls; \<open>JSON_parse\<close> starts it above what
  a text of that length can use. A key met again keeps its place and takes the later
  value.\<close>

fun parse_value :: "nat \<Rightarrow> string \<Rightarrow> (jsval \<times> string) option"
  and parse_elements :: "nat \<Rightarrow> jsval list \<Rightarrow> string \<Rightarrow> (jsval \<times> string) option"
  and parse_members :: "nat \<Rightarrow> (string \<times> jsval) list \<Rightarrow> string \<Rightarrow> (jsval \<times> string) option"
where
  "parse_value 0 s = None"
| "parse_value (Suc f) s =
     (case skip_ws s of
        [] \<Rightarrow> None
      | c # r \<Rightarrow>
          if c = CHR ''{'' then
            (if take 1 (skip_ws r) = ''}'' then Some (JObj [], drop 1 (skip_ws r))
             else parse_members f [] r)
          else if c = CHR ''['' then
            (if take 1 (skip_ws r) = '']'' then Some (JArr [], drop 1 (skip_ws r))
             else parse_elements f [] r)
          else if c = CHR 0x22 then
            (case parse_chars r of
               None \<Rightarrow> None
             | Some (str, rest) \<Rightarrow> Some (JStr str, rest))
          else if take 4 (c # r) = ''true'' then Some (JBool True, drop 3 r)
          else if take 5 (c # r) = ''false'' then Some (JBool False, drop 4 r)
          else if take 4 (c # r) = ''null'' then Some (JNull, drop 3 r)
          else (case parse_number (c # r) of
                  None \<Rightarrow> None
                | Some (n, rest) \<Rightarrow> Some (JNum n, rest)))"
| "parse_elements 0 acc s = None"
| "parse_elements (Suc f) acc s =
     (case parse_value f s of
        None \<Rightarrow> None
      | Some (v, r) \<Rightarrow>
          (case skip_ws r of
             [] \<Rightarrow> None
           | c # r' \<Rightarrow>
               if c = CHR '','' then parse_elements f (acc @ [v]) r'
               else if c = CHR '']'' then Some (JArr (acc @ [v]), r')
               else None))"
| "parse_members 0 acc s = None"
| "parse_members (Suc f) acc s =
     (case skip_ws s of
        [] \<Rightarrow> None
      | c # r \<Rightarrow>
          if c \<noteq> CHR 0x22 then None
          else
            (case parse_chars r of
               None \<Rightarrow> None
             | Some (k, r1) \<Rightarrow>
                 (case skip_ws r1 of
                    [] \<Rightarrow> None
                  | c1 # r2 \<Rightarrow>
                      if c1 \<noteq> CHR '':'' then None
                      else
                        (case parse_value f r2 of
                           None \<Rightarrow> None
                         | Some (v, r3) \<Rightarrow>
                             (case skip_ws r3 of
                                [] \<Rightarrow> None
                              | c3 # r4 \<Rightarrow>
                                  if c3 = CHR '','' then parse_members f (AList.update k v acc) r4
                                  else if c3 = CHR ''}'' then
                                    Some (JObj (AList.update k v acc), r4)
                                  else None)))))"


section \<open>The parser\<close>



section \<open>Notions of the specification\<close>

text \<open>A data key has a character that is no digit, so it is no index of an array or of
  a string.\<close>

definition data_key :: "string \<Rightarrow> bool" where
  "data_key k = (\<not> list_all is_digit k)"

text \<open>The shape \<^verbatim>\<open>validateDSL\<close> is specified to accept: an object whose \<^verbatim>\<open>camera\<close> is an
  object with arrays \<^verbatim>\<open>position\<close> and \<^verbatim>\<open>lookAt\<close>, and whose \<^verbatim>\<open>lights\<close> and \<^verbatim>\<open>objects\<close>
  are arrays; nothing is asked of the elements.\<close>

definition has_array :: "jsval \<Rightarrow> string \<Rightarrow> bool" where
  "has_array v k =
     (case v of
        JObj ps \<Rightarrow> (case map_of ps k of Some (JArr xs) \<Rightarrow> True | _ \<Rightarrow> False)
      | _ \<Rightarrow> False)"

definition well_shaped :: "jsval \<Rightarrow> bool" where
  "well_shaped v =
     (case v of
        JObj ps \<Rightarrow>
          (case map_of ps ''camera'' of
             Some camera \<Rightarrow> has_array camera ''position'' \<and> has_array camera ''lookAt''
           | None \<Rightarrow> False)
          \<and> has_array v ''lights'' \<and> has_array v ''objects''
      | _ \<Rightarrow> False)"

text \<open>Setting a list of properties, one after the other.\<close>

definition set_all :: "(string \<times> jsval) list \<Rightarrow> (string \<times> jsval) list \<Rightarrow> (string \<times> jsval) list" where
  "set_all ps base = fold (\<lambda>(k, x) acc. AList.update k x acc) ps base"

text \<open>A result that is a value and no error.\<close>

definition succeeds :: "error + 'a \<Rightarrow> bool" where
  "succeeds m = (case m of Inl e \<Rightarrow> False | Inr x \<Rightarrow> True)"

text \<open>A result that is a value, or else the \<^verbatim>\<open>TypeError\<close> of the runtime.\<close>

definition only_TypeError :: "error + 'a \<Rightarrow> bool" where
  "only_TypeError m = (case m of Inl e \<Rightarrow> e = TypeError | Inr x \<Rightarrow> True)"

text \<open>The interfaces of \<^verbatim>\<open>types/dsl.ts\<close>, read as predicates on values: a required
  field has a value of its type, an optional one may be missing or \<^verbatim>\<open>undefined\<close>.\<close>

definition is_number :: "jsval \<Rightarrow> bool" where
  "is_number v = (case v of JNum n \<Rightarrow> True | _ \<Rightarrow> False)"

definition is_string :: "jsval \<Rightarrow> bool" where
  "is_string v = (case v of JStr s \<Rightarrow> True | _ \<Rightarrow> False)"

definition is_boolean :: "jsval \<Rightarrow> bool" where
  "is_boolean v = (case v of JBool b \<Rightarrow> True | _ \<Rightarrow> False)"

definition is_object :: "jsval \<Rightarrow> bool" where
  "is_object v = (case v of JObj ps \<Rightarrow> True | _ \<Rightarrow> False)"

definition is_array_of :: "(jsval \<Rightarrow> bool) \<Rightarrow> jsval \<Rightarrow> bool" where
  "is_array_of P v = (case v of JArr xs \<Rightarrow> list_all P xs | _ \<Rightarrow> False)"

definition is_Vector3Array :: "jsval \<Rightarrow> bool" where
  "is_Vector3Array v = (case v of JArr xs \<Rightarrow> length xs = 3 \<and> list_all is_number xs | _ \<Rightarrow> False)"

definition optional :: "(jsval \<Rightarrow> bool) \<Rightarrow> jsval \<Rightarrow> bool" where
  "optional P v = (if v = JUndefined then True else P v)"

definition one_of :: "string list \<Rightarrow> jsval \<Rightarrow> bool" where
  "one_of names v = (case v of JStr s \<Rightarrow> s \<in> set names | _ \<Rightarrow> False)"

definition is_CameraConfig :: "jsval \<Rightarrow> bool" where
  "is_CameraConfig c =
     (is_object c
      \<and> is_Vector3Array (field c ''position'')
      \<and> is_Vector3Array (field c ''lookAt'')
      \<and> optional is_number (field c ''fov''))"

definition is_LightConfig :: "jsval \<Rightarrow> bool" where
  "is_LightConfig l =
     (is_object l
      \<and> one_of [''ambient'', ''directional'', ''point'', ''spot''] (field l ''type'')
      \<and> is_string (field l ''color'')
      \<and> is_number (field l ''intensity'')
      \<and> optional is_Vector3Array (field l ''position'')
      \<and> optional is_Vector3Array (field l ''target''))"

definition is_MaterialConfig :: "jsval \<Rightarrow> bool" where
  "is_MaterialConfig m =
     (is_object m
      \<and> one_of [''basic'', ''standard'', ''phong'', ''lambert''] (field m ''type'')
      \<and> is_string (field m ''color'')
      \<and> optional is_number (field m ''metalness'')
      \<and> optional is_number (field m ''roughness'')
      \<and> optional is_boolean (field m ''wireframe''))"

definition is_ObjectConfig :: "jsval \<Rightarrow> bool" where
  "is_ObjectConfig obj =
     (is_object obj
      \<and> one_of [''cube'', ''sphere'', ''plane'', ''cylinder'', ''cone'', ''torus'']
           (field obj ''type'')
      \<and> is_Vector3Array (field obj ''position'')
      \<and> optional is_Vector3Array (field obj ''rotation'')
      \<and> optional is_Vector3Array (field obj ''scale'')
      \<and> is_MaterialConfig (field obj ''material'')
      \<and> optional is_number (field obj ''radius'')
      \<and> optional is_number (field obj ''width'')
      \<and> optional is_number (field obj ''height'')
      \<and> optional is_number (field obj ''depth'')
      \<and> optional is_number (field obj ''segments''))"

definition is_SceneDSL :: "jsval \<Rightarrow> bool" where
  "is_SceneDSL dsl =
     (is_object dsl
      \<and> is_CameraConfig (field dsl ''camera'')
      \<and> is_array_of is_LightConfig (field dsl ''lights'')
      \<and> is_array_of is_ObjectConfig (field dsl ''objects'')
      \<and> optional is_string (field dsl ''background''))"

text \<open>No entry of \<^verbatim>\<open>objects\<close> is \<^verbatim>\<open>null\<close> or \<^verbatim>\<open>undefined\<close>.\<close>

definition is_nullish :: "jsval \<Rightarrow> bool" where
  "is_nullish v = (v = JUndefined \<or> v = JNull)"

definition no_nullish_object :: "jsval \<Rightarrow> bool" where
  "no_nullish_object dsl =
     (case field dsl ''objects'' of
        JArr os \<Rightarrow> list_all (\<lambda>obj. if is_nullish obj then False else True) os
      | _ \<Rightarrow> False)"

text \<open>A property of its own.\<close>

definition has_own :: "jsval \<Rightarrow> string \<Rightarrow> bool" where
  "has_own v k = (case map_of (own_props v) k of Some x \<Rightarrow> True | None \<Rightarrow> False)"

subsection \<open>Examples\<close>

text \<open>The object of the default-filling example, and a scene around it with the
  lights of \<^verbatim>\<open>createDefaultDSL\<close>.\<close>

definition example_object :: jsval where
  "example_object =
     JObj [(''type'', JStr ''cube''),
           (''position'', vec3 0 0 0),
           (''material'', JObj [(''type'', JStr ''basic''), (''color'', JStr ''#ff0000'')])]"

definition example_scene :: jsval where
  "example_scene =
     JObj [(''camera'', JObj [(''position'', vec3 0 5 10), (''lookAt'', vec3 0 0 0)]),
           (''lights'',
              JArr [JObj [(''type'', JStr ''ambient''), (''color'', JStr ''#ffffff''),
                          (''intensity'', JNum (Fin (1/2)))],
                    JObj [(''type'', JStr ''directional''), (''color'', JStr ''#ffffff''),
                          (''intensity'', JNum (dbl (4/5))),
                          (''position'', vec3 5 10 (15/2))]]),
           (''objects'', JArr [example_object])]"


definition null_object_scene :: jsval where
  "null_object_scene =
     JObj [(''camera'', JObj [(''position'', JArr []), (''lookAt'', JArr [])]),
           (''lights'', JArr []),
           (''objects'', JArr [JNull])]"

text \<open>The scene \<open>example_scene\<close> after normalization.\<close>

definition example_normalized :: jsval where
  "example_normalized =
     JObj [(''camera'', JObj [(''fov'', JNum (Fin 75)), (''position'', vec3 0 5 10),
                              (''lookAt'', vec3 0 0 0)]),
           (''lights'',
              JArr [JObj [(''type'', JStr ''ambient''), (''color'', JStr ''#ffffff''),
                          (''intensity'', JNum (Fin (1/2)))],
                    JObj [(''type'', JStr ''directional''), (''color'', JStr ''#ffffff''),
                          (''intensity'', JNum (dbl (4/5))),
                          (''position'', vec3 5 10 (15/2))]]),
           (''objects'',
              JArr [JObj [(''rotation'', vec3 0 0 0), (''scale'', vec3 1 1 1),
                          (''type'', JStr ''cube''), (''position'', vec3 0 0 0),
                          (''material'',
                             JObj [(''type'', JStr ''basic''), (''metalness'', JNum (Fin (1/2))),
                                   (''roughness'', JNum (Fin (1/2))), (''wireframe'', JBool False),
                                   (''color'', JStr ''#ff0000'')])]]),
           (''background'', JStr ''#000000'')]"




subsection \<open>The two errors of the parser\<close>



text \<open>The elements of an array value.\<close>

definition entries :: "jsval \<Rightarrow> jsval list" where
  "entries v = (case v of JArr xs \<Rightarrow> xs | _ \<Rightarrow> [])"

text \<open>The object \<open>example_object\<close> after normalization.\<close>

definition example_object_normalized :: jsval where
  "example_object_normalized =
     JObj [(''rotation'', vec3 0 0 0), (''scale'', vec3 1 1 1),
           (''type'', JStr ''cube''), (''position'', vec3 0 0 0),
           (''material'',
              JObj [(''type'', JStr ''basic''), (''metalness'', JNum (Fin (1/2))),
                    (''roughness'', JNum (Fin (1/2))), (''wireframe'', JBool False),
                    (''color'', JStr ''#ff0000'')])]"

subsection \<open>The blocks of lights\<close>






subsection \<open>Geometry parameters\<close>





definition torus_radius_0 :: jsval where
  "torus_radius_0 = JObj [(''type'', JStr ''torus''), (''radius'', JNum (Fin 0))]"

definition torus_radius_3 :: jsval where
  "torus_radius_3 = JObj [(''type'', JStr ''torus''), (''radius'', JNum (Fin 3))]"

subsection \<open>A description with an infinite number\<close>






subsection \<open>Values that survive serialization\<close>

text \<open>A number that reads back from its own numeral. \<^verbatim>\<open>Infinity\<close> and \<^verbatim>\<open>NaN\<close> do not (their
  numerals are no JSON), and \<open>-0\<close> does not (its numeral is \<^verbatim>\<open>0\<close>).\<close>

definition reads_back :: "jsnum \<Rightarrow> bool" where
  "reads_back n = (is_finite n \<and> parse_number (num_str n) = Some (n, []))"

text \<open>A value built from \<^verbatim>\<open>null\<close>, booleans, strings, numbers that read back, arrays and
  objects without a repeated key: no \<^verbatim>\<open>undefined\<close> anywhere.\<close>

fun plain :: "jsval \<Rightarrow> bool" where
  "plain JUndefined = False"
| "plain JNull = True"
| "plain (JBool b) = True"
| "plain (JNum n) = reads_back n"
| "plain (JStr s) = True"
| "plain (JArr xs) = list_all plain xs"
| "plain (JObj ps) = (distinct (map fst ps) \<and> list_all (\<lambda>(k, v). plain v) ps)"

text \<open>The number of values in a value.\<close>

fun weight :: "jsval \<Rightarrow> nat" where
  "weight (JArr xs) = Suc (sum_list (map weight xs))"
| "weight (JObj ps) = Suc (sum_list (map (\<lambda>(k, v). weight v) ps))"
| "weight v = 1"

text \<open>What may follow a value in a text: the end, a comma, a line break (and with them
  the closing bracket after the line break).\<close>

definition delimited :: "string \<Rightarrow> bool" where
  "delimited rest =
     (case rest of [] \<Rightarrow> True | c # cs \<Rightarrow> c = CHR '','' \<or> c = CHR 0x0A)"

section \<open>Basic facts\<close>

lemma bind_Inr [simp]: "bind (Inr x) f = f x"
  by (simp add: bind_def)

lemma bind_Inl [simp]: "bind (Inl e) f = Inl e"
  by (simp add: bind_def)

lemma bind_eq_Inr: "bind m f = Inr y \<longleftrightarrow> (\<exists>x. m = Inr x \<and> f x = Inr y)"
  by (cases m) simp_all

subsection \<open>Index keys are numerals\<close>

lemma is_digit_digit_char: "0 \<le> d \<Longrightarrow> d < 10 \<Longrightarrow> is_digit (digit_char d)"
  by (simp add: is_digit_def digit_char_def)

lemma decimal_digits: "0 \<le> n \<Longrightarrow> list_all is_digit (decimal n)"
proof (induction n rule: decimal.induct)
  case (1 n)
  show ?case
  proof (cases "n < 10")
    case True
    with 1(2) show ?thesis
      by (subst decimal.simps) (simp add: is_digit_digit_char)
  next
    case False
    with 1 have "list_all is_digit (decimal (n div 10))" by simp
    moreover have "is_digit (digit_char (n mod 10))"
      by (simp add: is_digit_digit_char)
    ultimately show ?thesis using False
      by (subst decimal.simps) simp
  qed
qed

lemma digits_val_snoc: "digits_val (ds @ [c]) = 10 * digits_val ds + (of_char c - 48)"
  by (simp add: digits_val_def)

lemma of_char_digit_char: "0 \<le> d \<Longrightarrow> d < 10 \<Longrightarrow> (of_char (digit_char d) :: int) = 48 + d"
  by (simp add: digit_char_def)

lemma digits_val_decimal: "0 \<le> n \<Longrightarrow> digits_val (decimal n) = n"
proof (induction n rule: decimal.induct)
  case (1 n)
  show ?case
  proof (cases "n < 10")
    case True
    with 1(2) show ?thesis
      by (subst decimal.simps) (simp add: digits_val_def of_char_digit_char)
  next
    case False
    with 1 have "digits_val (decimal (n div 10)) = n div 10" by simp
    then show ?thesis using False
      by (subst decimal.simps) (simp add: digits_val_snoc of_char_digit_char)
  qed
qed

lemma inj_string_of_nat: "inj string_of_nat"
proof (rule injI)
  fix m n assume "string_of_nat m = string_of_nat n"
  then have "digits_val (decimal (int m)) = digits_val (decimal (int n))"
    by (simp add: string_of_nat_def)
  then show "m = n" by (simp add: digits_val_decimal)
qed


lemma string_of_nat_not_data_key: "\<not> data_key (string_of_nat n)"
  by (simp add: data_key_def string_of_nat_def decimal_digits)

lemma map_of_index_keys:
  "data_key k \<Longrightarrow> map_of (zip (map string_of_nat ns) xs) k = None"
proof -
  assume k: "data_key k"
  have "k \<notin> set (map string_of_nat ns)"
    using k string_of_nat_not_data_key by auto
  then have "k \<notin> fst ` set (zip (map string_of_nat ns) xs)"
    by (metis (no_types, lifting) image_iff prod.collapse set_zip_leftD)
  then show ?thesis by (simp add: map_of_eq_None_iff)
qed

lemma field_JObj: "field (JObj ps) k = (case map_of ps k of Some x \<Rightarrow> x | None \<Rightarrow> JUndefined)"
  by (simp add: field_def map_of_clearjunk)

lemma field_not_object:
  "data_key k \<Longrightarrow> field (JArr xs) k = JUndefined"
  "data_key k \<Longrightarrow> field (JStr s) k = JUndefined"
  "field (JNum n) k = JUndefined"
  "field (JBool b) k = JUndefined"
  "field JNull k = JUndefined"
  "field JUndefined k = JUndefined"
  by (simp_all add: field_def map_of_index_keys)

lemma data_keys [simp]:
  "data_key ''camera''" "data_key ''position''" "data_key ''lookAt''"
  "data_key ''lights''" "data_key ''objects''" "data_key ''background''"
  "data_key ''material''" "data_key ''type''" "data_key ''color''"
  "data_key ''intensity''" "data_key ''rotation''" "data_key ''scale''"
  "data_key ''width''" "data_key ''height''" "data_key ''depth''"
  "data_key ''radius''" "data_key ''segments''" "data_key ''metalness''"
  "data_key ''roughness''" "data_key ''wireframe''" "data_key ''fov''"
  by (simp_all add: data_key_def is_digit_def)

lemma isArray_field_iff: "data_key k \<Longrightarrow> isArray (field v k) = has_array v k"
proof (cases v)
  case (JObj ps)
  then show ?thesis
    by (auto simp: field_JObj has_array_def split: option.splits jsval.splits)
qed (simp_all add: field_not_object has_array_def)

lemma validateDSL_eq: "validateDSL dsl = Inr (well_shaped dsl)"
proof (cases dsl)
  case (JObj ps)
  show ?thesis
  proof (cases "map_of ps ''camera''")
    case None
    then show ?thesis using JObj
      by (simp add: validateDSL_def well_shaped_def field_JObj)
  next
    case (Some camera)
    have cam: "field dsl ''camera'' = camera" using JObj Some by (simp add: field_JObj)
    show ?thesis
    proof (cases "camera = JUndefined \<or> camera = JNull")
      case True
      then show ?thesis using JObj Some cam
        by (auto simp: validateDSL_def well_shaped_def has_array_def)
    next
      case False
      then have g: "\<And>k. get camera k = Inr (field camera k)"
        by (cases camera) simp_all
      have t: "\<not> truthy camera \<Longrightarrow> \<not> has_array camera ''position''"
        by (cases camera) (simp_all add: has_array_def)
      show ?thesis using JObj Some cam g t
        by (auto simp: validateDSL_def well_shaped_def isArray_field_iff)
    qed
  qed
qed (simp_all add: validateDSL_def well_shaped_def field_not_object)

subsection \<open>Setting properties\<close>

lemma update_new: "k \<notin> fst ` set al \<Longrightarrow> AList.update k v al = al @ [(k, v)]"
  by (induction al) auto

lemma update_Cons_other: "k \<noteq> fst p \<Longrightarrow> AList.update k v (p # al) = p # AList.update k v al"
  by simp

lemma set_all_Nil [simp]: "set_all [] base = base"
  by (simp add: set_all_def)

lemma set_all_Cons [simp]: "set_all ((k, v) # ps) base = set_all ps (AList.update k v base)"
  by (simp add: set_all_def)

lemma set_all_append [simp]: "set_all (ps @ qs) base = set_all qs (set_all ps base)"
  by (simp add: set_all_def)

lemma spread_set_all: "spread v base = set_all (own_props v) base"
  by (simp add: spread_def set_all_def)

lemma distinct_set_all: "distinct (map fst base) \<Longrightarrow> distinct (map fst (set_all ps base))"
  by (induction ps arbitrary: base) (auto simp: distinct_update)

lemma keys_set_all: "\<exists>rest. map fst (set_all ps base) = map fst base @ rest"
proof (induction ps arbitrary: base)
  case Nil
  show ?case by simp
next
  case (Cons p ps)
  obtain k v where p: "p = (k, v)" by (cases p)
  obtain rest where "map fst (set_all ps (AList.update k v base)) = map fst (AList.update k v base) @ rest"
    using Cons by blast
  then show ?case using p by (auto simp: update_keys)
qed

lemma map_of_set_all:
  "distinct (map fst ps) \<Longrightarrow> map_of (set_all ps base) k =
     (case map_of ps k of Some x \<Rightarrow> Some x | None \<Rightarrow> map_of base k)"
proof (induction ps arbitrary: base)
  case Nil
  show ?case by simp
next
  case (Cons p ps)
  obtain k' v where p: "p = (k', v)" by (cases p)
  have nk: "map_of ps k' = None" using Cons.prems p by (simp add: map_of_eq_None_iff)
  show ?case using Cons p nk
    by (auto simp: update_conv' split: option.splits)
qed

text \<open>Setting fresh keys appends them.\<close>

lemma set_all_fresh:
  "distinct (map fst ps) \<Longrightarrow> fst ` set ps \<inter> fst ` set base = {} \<Longrightarrow> set_all ps base = base @ ps"
proof (induction ps arbitrary: base)
  case Nil
  show ?case by simp
next
  case (Cons p ps)
  obtain k v where p: "p = (k, v)" by (cases p)
  have "AList.update k v base = base @ [(k, v)]"
    using Cons.prems p by (intro update_new) auto
  moreover have "set_all ps (base @ [(k, v)]) = (base @ [(k, v)]) @ ps"
    using Cons.prems p by (intro Cons.IH) auto
  ultimately show ?case using p by simp
qed

text \<open>Setting the keys of a list on itself, values changed, gives the new values.\<close>

lemma set_all_same_keys:
  assumes "fst ` set ps \<inter> fst ` set pre = {}"
    and "distinct (map fst ps)" and "map fst ps = map fst base"
  shows "set_all ps (pre @ base) = pre @ ps"
  using assms
proof (induction ps arbitrary: base pre)
  case Nil
  then show ?case by simp
next
  case (Cons p ps)
  obtain k v where p: "p = (k, v)" by (cases p)
  have "map fst base = k # map fst ps" using Cons.prems(3) p by simp
  then obtain b base' where base: "base = (k, b) # base'" "map fst ps = map fst base'"
    by (cases base) auto
  have "k \<notin> fst ` set pre" using Cons.prems(1) p by auto
  then have u: "AList.update k v (pre @ base) = (pre @ [(k, v)]) @ base'"
    unfolding base by (induction pre) auto
  have "k \<notin> fst ` set ps" using Cons.prems(2) p by force
  then have dj: "fst ` set ps \<inter> fst ` set (pre @ [(k, v)]) = {}"
    using Cons.prems(1) by auto
  have "set_all ps ((pre @ [(k, v)]) @ base') = (pre @ [(k, v)]) @ ps"
    using dj Cons.prems(2) base(2) by (intro Cons.IH) simp_all
  then show ?case using p u by simp
qed

lemma set_all_absorb:
  assumes d: "distinct (map fst ps)" and k: "map fst ps = map fst base @ rest"
  shows "set_all ps base = ps"
proof -
  let ?n = "length base"
  have ps: "ps = take ?n ps @ drop ?n ps" by simp
  have k1: "map fst (take ?n ps) = map fst base"
    using k by (metis append_eq_conv_conj length_map take_map)
  have d1: "distinct (map fst (take ?n ps))" "distinct (map fst (drop ?n ps))"
    using d by (metis ps distinct_append map_append)+
  have dj: "fst ` set (drop ?n ps) \<inter> fst ` set (take ?n ps) = {}"
    using d by (metis ps distinct_append map_append set_map inf_commute)
  have "set_all (take ?n ps) ([] @ base) = [] @ take ?n ps"
    using d1 k1 by (intro set_all_same_keys) auto
  then have "set_all ps base = set_all (drop ?n ps) (take ?n ps)"
    by (metis ps set_all_append append_Nil)
  also have "\<dots> = take ?n ps @ drop ?n ps"
    using d1 dj by (intro set_all_fresh) auto
  finally show ?thesis by simp
qed

lemma set_all_self: "distinct (map fst ps) \<Longrightarrow> set_all ps [] = ps"
  by (rule set_all_absorb [where rest = "map fst ps"]) auto

subsection \<open>Own properties have distinct keys\<close>

lemma distinct_own_props: "distinct (map fst (own_props v))"
proof (cases v)
  case (JArr xs)
  have "distinct (map string_of_nat [0..<length xs])"
    by (simp add: distinct_map) (meson inj_string_of_nat inj_on_subset subset_UNIV)
  then show ?thesis using JArr by simp
next
  case (JStr s)
  have "distinct (map string_of_nat [0..<length s])"
    by (simp add: distinct_map) (meson inj_string_of_nat inj_on_subset subset_UNIV)
  then show ?thesis using JStr by simp
qed (simp_all add: distinct_clearjunk)

lemma own_props_distinct_obj: "distinct (map fst ps) \<Longrightarrow> own_props (JObj ps) = ps"
  by (simp add: distinct_clearjunk_id)

lemma map_of_spread:
  "map_of (spread v base) k =
     (case map_of (own_props v) k of Some x \<Rightarrow> Some x | None \<Rightarrow> map_of base k)"
  by (simp add: spread_set_all map_of_set_all distinct_own_props)

lemma distinct_spread: "distinct (map fst base) \<Longrightarrow> distinct (map fst (spread v base))"
  by (simp add: spread_set_all distinct_set_all)

lemma keys_spread: "\<exists>rest. map fst (spread v base) = map fst base @ rest"
  by (simp add: spread_set_all keys_set_all)

lemma spread_absorb:
  "distinct (map fst ps) \<Longrightarrow> map fst ps = map fst base @ rest \<Longrightarrow> spread (JObj ps) base = ps"
  by (simp add: spread_set_all own_props_distinct_obj set_all_absorb)

lemma spread_spread: "distinct (map fst base) \<Longrightarrow> spread (JObj (spread v base)) base = spread v base"
  using keys_spread [of v base] distinct_spread [of base v] spread_absorb by blast

subsection \<open>Normalization is idempotent\<close>

lemma normalizeCamera_idem: "normalizeCamera (normalizeCamera c) = normalizeCamera c"
  by (simp add: normalizeCamera_def spread_spread)

lemma normalizeMaterial_idem: "normalizeMaterial (normalizeMaterial m) = normalizeMaterial m"
  by (simp add: normalizeMaterial_def spread_spread)

lemma field_JObj_Some: "map_of ps k = Some x \<Longrightarrow> field (JObj ps) k = x"
  by (simp add: field_JObj)

lemma normalizeObject_idem:
  assumes "normalizeObject obj = Inr obj'"
  shows "normalizeObject obj' = Inr obj'"
proof -
  let ?base = "[(''rotation'', vec3 0 0 0), (''scale'', vec3 1 1 1)]"
  obtain m where m: "get obj ''material'' = Inr m"
    and o': "obj' = JObj (AList.update ''material'' (normalizeMaterial m) (spread obj ?base))"
    using assms by (auto simp: normalizeObject_def bind_eq_Inr)
  let ?s = "spread obj ?base"
  let ?o = "AList.update ''material'' (normalizeMaterial m) ?s"
  have d: "distinct (map fst ?o)"
    by (simp add: distinct_update distinct_spread)
  obtain rest where r: "map fst ?s = map fst ?base @ rest"
    using keys_spread by blast
  have "\<exists>rest'. map fst ?o = map fst ?base @ rest'"
    using r by (auto simp: update_keys)
  then obtain rest' where r': "map fst ?o = map fst ?base @ rest'" by blast
  have s: "spread (JObj ?o) ?base = ?o"
    using d r' by (rule spread_absorb)
  have g: "map_of ?o ''material'' = Some (normalizeMaterial m)"
    by (simp add: update_conv')
  have "normalizeObject (JObj ?o) = Inr (JObj (AList.update ''material'' (normalizeMaterial m) ?o))"
    by (simp add: normalizeObject_def field_JObj_Some [OF g] s normalizeMaterial_idem
          del: AList.update.simps)
  also have "AList.update ''material'' (normalizeMaterial m) ?o = ?o"
    using g by (rule update_triv)
  finally show ?thesis using o' by simp
qed

lemma sequence_eq_Inr:
  "sequence ms = Inr ys \<longleftrightarrow> ms = map Inr ys"
proof (induction ms arbitrary: ys)
  case Nil
  show ?case by auto
next
  case (Cons m ms)
  show ?case
  proof (cases m)
    case (Inl e)
    then show ?thesis by auto
  next
    case (Inr y)
    then show ?thesis using Cons by (cases ys) (auto simp: bind_eq_Inr)
  qed
qed

lemma mapM_eq_Inr: "mapM f xs = Inr ys \<longleftrightarrow> map f xs = map Inr ys"
  by (simp add: mapM_def sequence_eq_Inr)

lemma mapM_idem:
  assumes "\<And>x y. f x = Inr y \<Longrightarrow> f y = Inr y" and "mapM f xs = Inr ys"
  shows "mapM f ys = Inr ys"
proof -
  have "map f xs = map Inr ys" using assms(2) by (simp add: mapM_eq_Inr)
  then have "\<forall>y \<in> set ys. f y = Inr y"
    using assms(1) by (induction xs arbitrary: ys) auto
  then have "map f ys = map Inr ys" by simp
  then show ?thesis by (simp add: mapM_eq_Inr)
qed

lemma normalizeDSL_idem:
  assumes "normalizeDSL dsl = Inr d"
  shows "normalizeDSL d = Inr d"
proof -
  obtain camera background objects objects' where
    c: "get dsl ''camera'' = Inr camera" and b: "get dsl ''background'' = Inr background"
    and o: "get dsl ''objects'' = Inr objects"
    and m: "array_map normalizeObject objects = Inr objects'"
    and d: "d = JObj (AList.update ''objects'' objects'
             (AList.update ''background'' (or_else background (JStr ''#000000''))
             (AList.update ''camera'' (normalizeCamera camera) (spread dsl []))))"
    using assms by (auto simp: normalizeDSL_def bind_eq_Inr)
  obtain os os' where os: "objects = JArr os" "objects' = JArr os'" "mapM normalizeObject os = Inr os'"
    using m by (cases objects) (auto simp: bind_eq_Inr)
  let ?bg = "or_else background (JStr ''#000000'')"
  let ?d = "AList.update ''objects'' objects'
             (AList.update ''background'' ?bg
             (AList.update ''camera'' (normalizeCamera camera) (spread dsl [])))"
  have dist: "distinct (map fst ?d)"
    by (simp add: distinct_update distinct_spread)
  have sp: "spread (JObj ?d) [] = ?d"
    using dist by (rule spread_absorb [where rest = "map fst ?d"]) simp
  have gc: "map_of ?d ''camera'' = Some (normalizeCamera camera)"
    and gb: "map_of ?d ''background'' = Some ?bg"
    and go: "map_of ?d ''objects'' = Some objects'"
    by (simp_all add: update_conv')
  have tb: "or_else ?bg (JStr ''#000000'') = ?bg"
    by (simp add: or_else_def)
  have mo: "array_map normalizeObject objects' = Inr objects'"
    using os mapM_idem [of normalizeObject os os'] normalizeObject_idem by simp
  have "normalizeDSL (JObj ?d) =
          Inr (JObj (AList.update ''objects'' objects'
             (AList.update ''background'' ?bg
             (AList.update ''camera'' (normalizeCamera camera) ?d))))"
    by (simp add: normalizeDSL_def field_JObj_Some [OF gc] field_JObj_Some [OF gb]
          field_JObj_Some [OF go] tb mo sp normalizeCamera_idem del: AList.update.simps)
  also have "AList.update ''camera'' (normalizeCamera camera) ?d = ?d"
    using gc by (rule update_triv)
  also have "AList.update ''background'' ?bg ?d = ?d"
    using gb by (rule update_triv)
  also have "AList.update ''objects'' objects' ?d = ?d"
    using go by (rule update_triv)
  finally show ?thesis using d by simp
qed


subsection \<open>Results that succeed\<close>

lemma succeeds_Inr [simp]: "succeeds (Inr x)"
  by (simp add: succeeds_def)

lemma succeeds_Inl [simp]: "\<not> succeeds (Inl e)"
  by (simp add: succeeds_def)

lemma succeeds_iff: "succeeds m \<longleftrightarrow> (\<exists>x. m = Inr x)"
  by (cases m) simp_all

lemma succeeds_bind:
  "succeeds m \<Longrightarrow> (\<And>x. m = Inr x \<Longrightarrow> succeeds (f x)) \<Longrightarrow> succeeds (bind m f)"
  by (cases m) simp_all

lemma succeeds_bind_iff: "succeeds (bind m f) \<longleftrightarrow> (\<exists>x. m = Inr x \<and> succeeds (f x))"
  by (cases m) simp_all

lemma succeeds_sequence: "succeeds (sequence ms) \<longleftrightarrow> list_all succeeds ms"
proof (induction ms)
  case Nil
  show ?case by simp
next
  case (Cons m ms)
  have "succeeds (bind (sequence ms) (\<lambda>ys. Inr (b # ys))) = succeeds (sequence ms)" for b :: 'a
    by (cases "sequence ms") simp_all
  then show ?case using Cons by (cases m) simp_all
qed

lemma succeeds_mapM: "succeeds (mapM f xs) \<longleftrightarrow> list_all (\<lambda>x. succeeds (f x)) xs"
  by (simp add: mapM_def succeeds_sequence list_all_iff)

subsection \<open>Where the normalizer completes\<close>

lemma get_not_nullish: "\<not> is_nullish v \<Longrightarrow> get v k = Inr (field v k)"
  by (cases v) (simp_all add: is_nullish_def)

lemma get_nullish: "is_nullish v \<Longrightarrow> get v k = Inl TypeError"
  by (cases v) (simp_all add: is_nullish_def)

lemma succeeds_get: "succeeds (get v k) \<longleftrightarrow> \<not> is_nullish v"
  by (cases v) (simp_all add: is_nullish_def)

lemma succeeds_normalizeObject: "succeeds (normalizeObject obj) \<longleftrightarrow> \<not> is_nullish obj"
  by (auto simp: normalizeObject_def succeeds_bind_iff get_not_nullish get_nullish)

lemma well_shaped_object: "well_shaped dsl \<Longrightarrow> is_object dsl"
  by (cases dsl) (simp_all add: well_shaped_def is_object_def)

lemma get_object: "is_object v \<Longrightarrow> get v k = Inr (field v k)"
  by (cases v) (simp_all add: is_object_def)

lemma well_shaped_objects: "well_shaped dsl \<Longrightarrow> isArray (field dsl ''objects'')"
  by (cases dsl) (auto simp: well_shaped_def isArray_field_iff)

lemma succeeds_normalizeDSL:
  assumes "well_shaped dsl"
  shows "succeeds (normalizeDSL dsl) \<longleftrightarrow> no_nullish_object dsl"
proof -
  obtain os where os: "field dsl ''objects'' = JArr os"
    using well_shaped_objects [OF assms] by (cases "field dsl ''objects''") simp_all
  have "succeeds (normalizeDSL dsl) \<longleftrightarrow> succeeds (mapM normalizeObject os)"
    using os by (cases "mapM normalizeObject os")
      (simp_all add: normalizeDSL_def get_object [OF well_shaped_object [OF assms]])
  then show ?thesis using os
    by (simp add: succeeds_mapM succeeds_normalizeObject no_nullish_object_def)
qed

lemma only_TypeError_Inr [simp]: "only_TypeError (Inr x)"
  by (simp add: only_TypeError_def)

lemma only_TypeError_Inl [simp]: "only_TypeError (Inl e) \<longleftrightarrow> e = TypeError"
  by (simp add: only_TypeError_def)








subsection \<open>Fields of built objects\<close>

lemma field_eq: "field v k = (case map_of (own_props v) k of Some x \<Rightarrow> x | None \<Rightarrow> JUndefined)"
  by (simp add: field_def)

lemma field_spread:
  "field (JObj (spread v base)) k = (if has_own v k then field v k else field (JObj base) k)"
  by (simp add: field_JObj map_of_spread has_own_def field_def [of v] split: option.splits)

lemma field_update:
  "field (JObj (AList.update k' x ps)) k = (if k = k' then x else field (JObj ps) k)"
  by (simp add: field_JObj update_conv')

lemma not_has_own_field: "\<not> has_own v k \<Longrightarrow> field v k = JUndefined"
  by (simp add: has_own_def field_eq split: option.splits)

lemma field_spread_other:
  "map_of base k = None \<Longrightarrow> field (JObj (spread v base)) k = field v k"
  by (cases "has_own v k") (simp_all add: field_spread not_has_own_field field_JObj [of base])

subsection \<open>The generator on typed values\<close>

lemma is_number_to_string: "is_number v \<Longrightarrow> succeeds (to_string v)"
  by (cases v) (simp_all add: is_number_def)

lemma is_string_to_string: "is_string v \<Longrightarrow> succeeds (to_string v)"
  by (cases v) (simp_all add: is_string_def)

lemma is_boolean_to_string: "is_boolean v \<Longrightarrow> succeeds (to_string v)"
  by (cases v) (simp_all add: is_boolean_def)

lemma one_of_to_string: "one_of names v \<Longrightarrow> succeeds (to_string v)"
  by (cases v) (simp_all add: one_of_def)

lemma is_number_to_number: "is_number v \<Longrightarrow> succeeds (to_number v)"
  by (cases v) (simp_all add: is_number_def to_number_def)

lemma succeeds_join_numbers: "list_all is_number xs \<Longrightarrow> succeeds (join (JArr xs) sep)"
proof -
  assume a: "list_all is_number xs"
  have "list_all succeeds (map (\<lambda>x. case x of JUndefined \<Rightarrow> Inr [] | JNull \<Rightarrow> Inr []
                                       | _ \<Rightarrow> to_string x) xs)"
    using a by (induction xs) (auto simp: is_number_def split: jsval.splits)
  then have "succeeds (sequence (map (\<lambda>x. case x of JUndefined \<Rightarrow> Inr [] | JNull \<Rightarrow> Inr []
                                       | _ \<Rightarrow> to_string x) xs))"
    by (simp add: succeeds_sequence)
  then show ?thesis
    by (auto simp: join_def succeeds_iff)
qed

lemma is_Vector3Array_join: "is_Vector3Array v \<Longrightarrow> succeeds (join v sep)"
  by (cases v) (simp_all add: is_Vector3Array_def succeeds_join_numbers)

lemma is_Vector3Array_vec3 [simp]: "is_Vector3Array (vec3 x y z)"
  by (simp add: is_Vector3Array_def vec3_def is_number_def)

lemma optional_or_else_vec:
  "optional is_Vector3Array v \<Longrightarrow> is_Vector3Array (or_else v (vec3 x y z))"
proof (cases "v = JUndefined")
  case True
  then show ?thesis by (simp add: or_else_def)
next
  case False
  assume "optional is_Vector3Array v"
  with False have "is_Vector3Array v" by (simp add: optional_def)
  then show ?thesis by (cases v) (simp_all add: or_else_def is_Vector3Array_def)
qed

lemma optional_or_else_number:
  "optional is_number v \<Longrightarrow> is_number (or_else v (JNum d))"
  by (cases v) (auto simp: optional_def or_else_def is_number_def split: if_splits)

lemma optional_or_else_string:
  "optional is_string v \<Longrightarrow> is_string (or_else v (JStr d))"
  by (cases v) (auto simp: optional_def or_else_def is_string_def split: if_splits)

lemma is_stringE: "is_string v \<Longrightarrow> (\<And>s. v = JStr s \<Longrightarrow> thesis) \<Longrightarrow> thesis"
  by (cases v) (simp_all add: is_string_def)

lemma is_numberE: "is_number v \<Longrightarrow> (\<And>n. v = JNum n \<Longrightarrow> thesis) \<Longrightarrow> thesis"
  by (cases v) (simp_all add: is_number_def)

lemma one_ofE: "one_of names v \<Longrightarrow> (\<And>s. v = JStr s \<Longrightarrow> s \<in> set names \<Longrightarrow> thesis) \<Longrightarrow> thesis"
  by (cases v) (simp_all add: one_of_def)

lemma joinE: "is_Vector3Array v \<Longrightarrow> (\<And>s. join v sep = Inr s \<Longrightarrow> thesis) \<Longrightarrow> thesis"
  using is_Vector3Array_join [of v sep] by (auto simp: succeeds_iff)

lemma to_stringE: "succeeds (to_string v) \<Longrightarrow> (\<And>s. to_string v = Inr s \<Longrightarrow> thesis) \<Longrightarrow> thesis"
  by (auto simp: succeeds_iff)

lemma succeeds_positionedLight:
  assumes "is_LightConfig light" "is_Vector3Array pos"
  shows "succeeds (positionedLight varName cls light pos)"
proof -
  have o: "is_object light" using assms(1) by (simp add: is_LightConfig_def)
  obtain c where c: "field light ''color'' = JStr c"
    using assms(1) by (auto simp: is_LightConfig_def elim: is_stringE)
  obtain i where i: "field light ''intensity'' = JNum i"
    using assms(1) by (auto simp: is_LightConfig_def elim: is_numberE)
  obtain p where p: "join pos '', '' = Inr p"
    using assms(2) by (rule joinE)
  show ?thesis
    by (simp add: positionedLight_def get_object [OF o] c i p)
qed

lemma succeeds_generateLight:
  assumes "is_LightConfig light"
  shows "succeeds (generateLight light index)"
proof -
  have o: "is_object light" using assms by (simp add: is_LightConfig_def)
  obtain t where t: "field light ''type'' = JStr t"
    using assms by (auto simp: is_LightConfig_def elim: one_ofE)
  obtain c where c: "field light ''color'' = JStr c"
    using assms by (auto simp: is_LightConfig_def elim: is_stringE)
  obtain i where i: "field light ''intensity'' = JNum i"
    using assms by (auto simp: is_LightConfig_def elim: is_numberE)
  have p: "is_Vector3Array (or_else (field light ''position'') (vec3 x y z))" for x y z
    using assms by (simp add: is_LightConfig_def optional_or_else_vec)
  show ?thesis
    by (simp add: generateLight_def get_object [OF o] t c i Let_def
        succeeds_positionedLight [OF assms p])
qed

lemma succeeds_generateGeometry:
  assumes "is_ObjectConfig obj"
  shows "succeeds (generateGeometry obj)"
proof -
  have o: "is_object obj" using assms by (simp add: is_ObjectConfig_def)
  have n: "\<exists>n. or_else (field obj k) (JNum d) = JNum n"
    if "k \<in> {''radius'', ''width'', ''height'', ''depth'', ''segments''}" for k d
  proof -
    have "optional is_number (field obj k)"
      using assms that by (auto simp: is_ObjectConfig_def)
    then have "is_number (or_else (field obj k) (JNum d))"
      by (rule optional_or_else_number)
    then show ?thesis by (auto elim: is_numberE)
  qed
  obtain w where w: "or_else (field obj ''width'') (JNum (Fin 1)) = JNum w" using n by blast
  obtain h where h: "or_else (field obj ''height'') (JNum (Fin 1)) = JNum h" using n by blast
  obtain d where d: "or_else (field obj ''depth'') (JNum (Fin 1)) = JNum d" using n by blast
  obtain r where r: "or_else (field obj ''radius'') (JNum (Fin 1)) = JNum r" using n by blast
  obtain sg where sg: "or_else (field obj ''segments'') (JNum (Fin 32)) = JNum sg" using n by blast
  obtain pw where pw: "or_else (field obj ''width'') (JNum (Fin 10)) = JNum pw" using n by blast
  obtain ph where ph: "or_else (field obj ''height'') (JNum (Fin 10)) = JNum ph" using n by blast
  obtain ch where ch: "or_else (field obj ''height'') (JNum (Fin 2)) = JNum ch" using n by blast
  show ?thesis
    by (simp add: generateGeometry_def get_object [OF o] w h d r sg pw ph ch Let_def
        to_number_def)
qed

lemma succeeds_materialParams:
  assumes "is_MaterialConfig material"
  shows "succeeds (materialParams material)"
proof -
  have o: "is_object material" using assms by (simp add: is_MaterialConfig_def)
  obtain c where c: "field material ''color'' = JStr c"
    using assms by (auto simp: is_MaterialConfig_def elim: is_stringE)
  have w: "succeeds (to_string (field material ''wireframe''))"
    using assms by (cases "field material ''wireframe''")
      (auto simp: is_MaterialConfig_def optional_def is_boolean_def split: if_splits)
  have m: "succeeds (to_string (field material ''metalness''))"
    using assms by (cases "field material ''metalness''")
      (auto simp: is_MaterialConfig_def optional_def is_number_def split: if_splits)
  have r: "succeeds (to_string (field material ''roughness''))"
    using assms by (cases "field material ''roughness''")
      (auto simp: is_MaterialConfig_def optional_def is_number_def split: if_splits)
  obtain ws where ws: "to_string (field material ''wireframe'') = Inr ws"
    using w by (rule to_stringE)
  obtain ms where ms: "to_string (field material ''metalness'') = Inr ms"
    using m by (rule to_stringE)
  obtain rs where rs: "to_string (field material ''roughness'') = Inr rs"
    using r by (rule to_stringE)
  show ?thesis
    by (simp add: materialParams_def get_object [OF o] c ws ms rs)
qed

lemma succeeds_generateMaterial:
  assumes "is_ObjectConfig obj"
  shows "succeeds (generateMaterial obj)"
proof -
  have o: "is_object obj" and m: "is_MaterialConfig (field obj ''material'')"
    using assms by (simp_all add: is_ObjectConfig_def)
  have om: "is_object (field obj ''material'')" using m by (simp add: is_MaterialConfig_def)
  obtain ps where ps: "materialParams (field obj ''material'') = Inr ps"
    using succeeds_materialParams [OF m] by (auto simp: succeeds_iff)
  show ?thesis
    by (simp add: generateMaterial_def get_object [OF o] get_object [OF om] ps Let_def)
qed

lemma succeeds_generateObject:
  assumes "is_ObjectConfig obj"
  shows "succeeds (generateObject obj index)"
proof -
  have o: "is_object obj" using assms by (simp add: is_ObjectConfig_def)
  obtain g where g: "generateGeometry obj = Inr g"
    using succeeds_generateGeometry [OF assms] by (auto simp: succeeds_iff)
  obtain m where m: "generateMaterial obj = Inr m"
    using succeeds_generateMaterial [OF assms] by (auto simp: succeeds_iff)
  obtain p where p: "join (field obj ''position'') '', '' = Inr p"
    using assms by (auto simp: is_ObjectConfig_def elim: joinE)
  have "is_Vector3Array (or_else (field obj ''rotation'') (vec3 0 0 0))"
    using assms by (simp add: is_ObjectConfig_def optional_or_else_vec)
  then obtain r where r: "join (or_else (field obj ''rotation'') (vec3 0 0 0)) '', '' = Inr r"
    by (rule joinE)
  have "is_Vector3Array (or_else (field obj ''scale'') (vec3 1 1 1))"
    using assms by (simp add: is_ObjectConfig_def optional_or_else_vec)
  then obtain sc where sc: "join (or_else (field obj ''scale'') (vec3 1 1 1)) '', '' = Inr sc"
    by (rule joinE)
  show ?thesis
    by (simp add: generateObject_def get_object [OF o] g m p r sc Let_def)
qed

lemma succeeds_map_join:
  assumes "is_array_of P v" and "\<And>x i. P x \<Longrightarrow> succeeds (f x i)"
  shows "succeeds (map_join f v sep)"
proof (cases v)
  case (JArr xs)
  have "list_all P xs" using assms(1) JArr by (simp add: is_array_of_def)
  then have "list_all (\<lambda>p. succeeds ((\<lambda>(x, i). f x i) p)) (zip xs [0..<length xs])"
    using assms(2) by (auto simp: list_all_iff dest: set_zip_leftD)
  then have "succeeds (mapM (\<lambda>(x, i). f x i) (zip xs [0..<length xs]))"
    by (simp add: succeeds_mapM)
  then show ?thesis using JArr by (auto simp: map_join_def succeeds_iff)
qed (use assms(1) in \<open>simp_all add: is_array_of_def\<close>)

lemma succeeds_generateScene:
  assumes "is_SceneDSL dsl"
  shows "succeeds (generateScene dsl)"
proof -
  have o: "is_object dsl" and c: "is_CameraConfig (field dsl ''camera'')"
    and l: "is_array_of is_LightConfig (field dsl ''lights'')"
    and ob: "is_array_of is_ObjectConfig (field dsl ''objects'')"
    and b: "optional is_string (field dsl ''background'')"
    using assms by (simp_all add: is_SceneDSL_def)
  have oc: "is_object (field dsl ''camera'')" using c by (simp add: is_CameraConfig_def)
  obtain bg where bg: "or_else (field dsl ''background'') (JStr ''#000000'') = JStr bg"
    using optional_or_else_string [OF b] by (auto elim: is_stringE)
  have 1: "succeeds (generateSceneSetup dsl)"
    by (simp add: generateSceneSetup_def get_object [OF o] bg)
  have "is_number (if field (field dsl ''camera'') ''fov'' = JUndefined then JNum (Fin 75)
                      else field (field dsl ''camera'') ''fov'')"
    using c by (auto simp: is_CameraConfig_def optional_def is_number_def)
  then obtain f where f: "(if field (field dsl ''camera'') ''fov'' = JUndefined then JNum (Fin 75)
                      else field (field dsl ''camera'') ''fov'') = JNum f"
    by (rule is_numberE)
  obtain p where p: "join (field (field dsl ''camera'') ''position'') '', '' = Inr p"
    using c by (auto simp: is_CameraConfig_def elim: joinE)
  obtain la where la: "join (field (field dsl ''camera'') ''lookAt'') '', '' = Inr la"
    using c by (auto simp: is_CameraConfig_def elim: joinE)
  have 2: "succeeds (generateCamera dsl)"
    by (simp add: generateCamera_def get_object [OF o] get_object [OF oc] f p la Let_def)
  have "succeeds (map_join generateLight (field dsl ''lights'') (''\<newline>\<newline>''))"
    using l succeeds_generateLight by (rule succeeds_map_join)
  then have 3: "succeeds (generateLights dsl)"
    by (auto simp: generateLights_def get_object [OF o] succeeds_iff)
  have "succeeds (map_join generateObject (field dsl ''objects'') (''\<newline>\<newline>''))"
    using ob succeeds_generateObject by (rule succeeds_map_join)
  then have 4: "succeeds (generateObjects dsl)"
    by (auto simp: generateObjects_def get_object [OF o] succeeds_iff)
  show ?thesis using 1 2 3 4
    by (auto simp: generateScene_def succeeds_iff)
qed

lemma succeeds_generateHTML:
  assumes "is_SceneDSL dsl"
  shows "succeeds (generateHTML dsl title)"
  using succeeds_generateScene [OF assms]
  by (auto simp: generateHTML_def succeeds_iff Let_def)

subsection \<open>Normalization keeps the types\<close>

lemma is_object_JObj [simp]: "is_object (JObj ps)"
  by (simp add: is_object_def)

lemma field_JObj_Nil [simp]: "field (JObj []) k = JUndefined"
  by (simp add: field_JObj)

lemma field_JObj_Cons [simp]:
  "field (JObj ((k', x) # ps)) k = (if k = k' then x else field (JObj ps) k)"
  by (simp add: field_JObj)

lemma has_array_iff: "has_array v k \<longleftrightarrow> is_object v \<and> isArray (field v k)"
  by (cases v) (auto simp: has_array_def is_object_def field_JObj split: option.splits jsval.splits)

lemma optional_default:
  "optional P (field v k) \<Longrightarrow> P d \<Longrightarrow> optional P (if has_own v k then field v k else d)"
  by (simp add: optional_def)

lemma is_number_JNum [simp]: "is_number (JNum n)"
  by (simp add: is_number_def)

lemma is_boolean_JBool [simp]: "is_boolean (JBool b)"
  by (simp add: is_boolean_def)

lemma is_CameraConfig_normalizeCamera:
  assumes "is_CameraConfig c"
  shows "is_CameraConfig (normalizeCamera c)"
proof -
  have p: "field (normalizeCamera c) ''position'' = field c ''position''"
    and l: "field (normalizeCamera c) ''lookAt'' = field c ''lookAt''"
    by (simp_all add: normalizeCamera_def field_spread_other)
  have f: "field (normalizeCamera c) ''fov'' =
             (if has_own c ''fov'' then field c ''fov'' else JNum (Fin 75))"
    by (simp add: normalizeCamera_def field_spread)
  have o: "is_object (normalizeCamera c)" by (simp add: normalizeCamera_def)
  have "optional is_number (field (normalizeCamera c) ''fov'')"
    unfolding f using assms by (intro optional_default) (simp_all add: is_CameraConfig_def)
  then show ?thesis using assms o
    by (simp add: is_CameraConfig_def p l)
qed

lemma is_MaterialConfig_normalizeMaterial:
  assumes "is_MaterialConfig m"
  shows "is_MaterialConfig (normalizeMaterial m)"
proof -
  have c: "field (normalizeMaterial m) ''color'' = field m ''color''"
    by (simp add: normalizeMaterial_def field_spread_other)
  have t0: "has_own m ''type''"
    using assms not_has_own_field [of m "''type''"]
    by (cases "has_own m ''type''") (auto simp: is_MaterialConfig_def one_of_def)
  have t: "field (normalizeMaterial m) ''type'' = field m ''type''"
    using t0 by (simp add: normalizeMaterial_def field_spread)
  have me: "field (normalizeMaterial m) ''metalness'' =
              (if has_own m ''metalness'' then field m ''metalness'' else JNum (Fin (1/2)))"
    and r: "field (normalizeMaterial m) ''roughness'' =
              (if has_own m ''roughness'' then field m ''roughness'' else JNum (Fin (1/2)))"
    and w: "field (normalizeMaterial m) ''wireframe'' =
              (if has_own m ''wireframe'' then field m ''wireframe'' else JBool False)"
    by (simp_all add: normalizeMaterial_def field_spread)
  have o: "is_object (normalizeMaterial m)" by (simp add: normalizeMaterial_def)
  have 1: "optional is_number (field (normalizeMaterial m) ''metalness'')"
    unfolding me using assms by (intro optional_default) (simp_all add: is_MaterialConfig_def)
  have 2: "optional is_number (field (normalizeMaterial m) ''roughness'')"
    unfolding r using assms by (intro optional_default) (simp_all add: is_MaterialConfig_def)
  have 3: "optional is_boolean (field (normalizeMaterial m) ''wireframe'')"
    unfolding w using assms by (intro optional_default) (simp_all add: is_MaterialConfig_def)
  show ?thesis using assms o 1 2 3
    by (simp add: is_MaterialConfig_def c t)
qed

lemma is_ObjectConfig_normalizeObject:
  assumes "is_ObjectConfig obj" and "normalizeObject obj = Inr obj'"
  shows "is_ObjectConfig obj'"
proof -
  let ?base = "[(''rotation'', vec3 0 0 0), (''scale'', vec3 1 1 1)]"
  have o: "is_object obj" using assms(1) by (simp add: is_ObjectConfig_def)
  have o': "obj' = JObj (AList.update ''material'' (normalizeMaterial (field obj ''material''))
                     (spread obj ?base))"
    using assms(2) by (simp add: normalizeObject_def get_object [OF o])
  have m: "field obj' ''material'' = normalizeMaterial (field obj ''material'')"
    by (simp add: o' field_update)
  have f: "k \<noteq> ''material'' \<Longrightarrow> k \<noteq> ''rotation'' \<Longrightarrow> k \<noteq> ''scale'' \<Longrightarrow>
             field obj' k = field obj k" for k
    by (simp add: o' field_update field_spread_other)
  have r: "field obj' ''rotation'' = (if has_own obj ''rotation'' then field obj ''rotation''
                                       else vec3 0 0 0)"
    by (simp add: o' field_update field_spread)
  have s: "field obj' ''scale'' = (if has_own obj ''scale'' then field obj ''scale''
                                    else vec3 1 1 1)"
    by (simp add: o' field_update field_spread)
  have 0: "is_object obj'" by (simp add: o')
  have 1: "optional is_Vector3Array (field obj' ''rotation'')"
    unfolding r using assms(1) by (intro optional_default) (simp_all add: is_ObjectConfig_def)
  have 2: "optional is_Vector3Array (field obj' ''scale'')"
    unfolding s using assms(1) by (intro optional_default) (simp_all add: is_ObjectConfig_def)
  show ?thesis using assms(1) 0 1 2
    by (simp add: is_ObjectConfig_def m f is_MaterialConfig_normalizeMaterial)
qed

lemma mapM_preserves:
  assumes "\<And>x y. P x \<Longrightarrow> f x = Inr y \<Longrightarrow> Q y" and "list_all P xs" and "mapM f xs = Inr ys"
  shows "list_all Q ys"
proof -
  have "map f xs = map Inr ys" using assms(3) by (simp add: mapM_eq_Inr)
  then show ?thesis using assms(1,2)
  proof (induction xs arbitrary: ys)
    case Nil
    then show ?case by simp
  next
    case (Cons x xs)
    then show ?case by (cases ys) auto
  qed
qed

lemma normalizeDSL_fields:
  assumes "is_object dsl" and "normalizeDSL dsl = Inr d"
  shows "field d ''camera'' = normalizeCamera (field dsl ''camera'')"
    and "field d ''background'' = or_else (field dsl ''background'') (JStr ''#000000'')"
    and "array_map normalizeObject (field dsl ''objects'') = Inr (field d ''objects'')"
    and "field d ''lights'' = field dsl ''lights''"
    and "is_object d"
proof -
  obtain os' where os': "array_map normalizeObject (field dsl ''objects'') = Inr os'"
    and d: "d = JObj (AList.update ''objects'' os'
             (AList.update ''background'' (or_else (field dsl ''background'') (JStr ''#000000''))
             (AList.update ''camera'' (normalizeCamera (field dsl ''camera'')) (spread dsl []))))"
    using assms(2) by (auto simp: normalizeDSL_def get_object [OF assms(1)] bind_eq_Inr)
  show "field d ''camera'' = normalizeCamera (field dsl ''camera'')"
    by (simp add: d field_update)
  show "field d ''background'' = or_else (field dsl ''background'') (JStr ''#000000'')"
    by (simp add: d field_update)
  show "array_map normalizeObject (field dsl ''objects'') = Inr (field d ''objects'')"
    by (simp add: d field_update os')
  show "field d ''lights'' = field dsl ''lights''"
    by (simp add: d field_update field_spread_other)
  show "is_object d" by (simp add: d)
qed

lemma is_SceneDSL_normalizeDSL:
  assumes "is_SceneDSL dsl" and "normalizeDSL dsl = Inr d"
  shows "is_SceneDSL d"
proof -
  have o: "is_object dsl" using assms(1) by (simp add: is_SceneDSL_def)
  note f = normalizeDSL_fields [OF o assms(2)]
  obtain os where os: "field dsl ''objects'' = JArr os" "list_all is_ObjectConfig os"
    using assms(1) by (cases "field dsl ''objects''") (auto simp: is_SceneDSL_def is_array_of_def)
  have "bind (mapM normalizeObject os) (\<lambda>ys. Inr (JArr ys)) = Inr (field d ''objects'')"
    using f(3) os(1) by simp
  then obtain os' where os': "mapM normalizeObject os = Inr os'" "field d ''objects'' = JArr os'"
    by (auto simp: bind_eq_Inr)
  have "list_all is_ObjectConfig os'"
    using is_ObjectConfig_normalizeObject os(2) os'(1) by (rule mapM_preserves)
  then have 1: "is_array_of is_ObjectConfig (field d ''objects'')"
    by (simp add: os'(2) is_array_of_def)
  have 2: "optional is_string (field d ''background'')"
    using assms(1) optional_or_else_string [of "field dsl ''background''" "''#000000''"]
    by (simp add: f(2) is_SceneDSL_def optional_def)
  show ?thesis using assms(1) 1 2
    by (simp add: is_SceneDSL_def f is_CameraConfig_normalizeCamera)
qed

lemma is_Vector3Array_isArray: "is_Vector3Array v \<Longrightarrow> isArray v"
  by (cases v) (simp_all add: is_Vector3Array_def)

lemma is_array_of_isArray: "is_array_of P v \<Longrightarrow> isArray v"
  by (cases v) (simp_all add: is_array_of_def)

lemma well_shaped_iff:
  "well_shaped dsl \<longleftrightarrow>
     is_object dsl \<and> is_object (field dsl ''camera'')
     \<and> isArray (field (field dsl ''camera'') ''position'')
     \<and> isArray (field (field dsl ''camera'') ''lookAt'')
     \<and> isArray (field dsl ''lights'') \<and> isArray (field dsl ''objects'')"
proof (cases dsl)
  case (JObj ps)
  show ?thesis
  proof (cases "map_of ps ''camera''")
    case None
    then show ?thesis using JObj
      by (simp add: well_shaped_def field_JObj is_object_def)
  next
    case (Some camera)
    then have "field dsl ''camera'' = camera" using JObj by (simp add: field_JObj)
    then show ?thesis using JObj Some
      by (auto simp: well_shaped_def has_array_iff)
  qed
qed (simp_all add: well_shaped_def is_object_def)

lemma is_SceneDSL_well_shaped: "is_SceneDSL dsl \<Longrightarrow> well_shaped dsl"
  by (auto simp: well_shaped_iff is_SceneDSL_def is_CameraConfig_def
      intro: is_Vector3Array_isArray is_array_of_isArray)

lemma is_SceneDSL_no_nullish: "is_SceneDSL dsl \<Longrightarrow> no_nullish_object dsl"
proof -
  assume "is_SceneDSL dsl"
  then obtain os where os: "field dsl ''objects'' = JArr os" "list_all is_ObjectConfig os"
    by (cases "field dsl ''objects''") (auto simp: is_SceneDSL_def is_array_of_def)
  have "is_ObjectConfig obj \<Longrightarrow> \<not> is_nullish obj" for obj
    by (auto simp: is_ObjectConfig_def is_nullish_def is_object_def)
  then show ?thesis using os
    by (auto simp: no_nullish_object_def list_all_iff)
qed

subsection \<open>The examples\<close>

lemma validateDSL_example: "validateDSL example_scene = Inr True"
  by (simp add: validateDSL_eq well_shaped_def has_array_def example_scene_def vec3_def)

lemma normalizeDSL_example: "normalizeDSL example_scene = Inr example_normalized"
  by (simp add: normalizeDSL_def example_scene_def example_normalized_def example_object_def
      normalizeObject_def normalizeMaterial_def normalizeCamera_def spread_def mapM_def
      or_else_def field_JObj)

lemma is_SceneDSL_example: "is_SceneDSL example_scene"
  by (simp add: is_SceneDSL_def example_scene_def example_object_def is_CameraConfig_def
      is_LightConfig_def is_ObjectConfig_def is_MaterialConfig_def is_array_of_def
      is_string_def one_of_def optional_def)

lemma validateDSL_null_object: "validateDSL null_object_scene = Inr True"
  by (simp add: validateDSL_eq well_shaped_def has_array_def null_object_scene_def)

lemma normalizeDSL_null_object: "normalizeDSL null_object_scene = Inl TypeError"
  by (simp add: normalizeDSL_def null_object_scene_def normalizeObject_def mapM_def)

subsection \<open>The parser\<close>









subsection \<open>Numerals of the defaults\<close>

declare num_str.simps(5) [simp del]

lemma num_str_0: "num_str (Fin 0) = ''0''" by (simp add: num_str.simps)

lemma num_str_1: "num_str (Fin 1) = ''1''" by code_simp





lemma num_str_75: "num_str (Fin 75) = ''75''" by code_simp



lemma num_str_0_4: "num_str (fmul (Fin 1) (dbl (2/5))) = ''0.4''" by code_simp

subsection \<open>What normalization fills in\<close>

lemma normalizeCamera_fields:
  "field (normalizeCamera c) k =
     (if has_own c k then field c k else if k = ''fov'' then JNum (Fin 75) else JUndefined)"
  by (simp add: normalizeCamera_def field_spread)

lemma normalizeMaterial_fields:
  "field (normalizeMaterial m) k =
     (if has_own m k then field m k
      else if k = ''type'' then JStr ''standard''
      else if k = ''metalness'' then JNum (Fin (1/2))
      else if k = ''roughness'' then JNum (Fin (1/2))
      else if k = ''wireframe'' then JBool False
      else JUndefined)"
  by (simp add: normalizeMaterial_def field_spread)

lemma normalizeObject_fields:
  assumes "normalizeObject obj = Inr obj'"
  shows "field obj' k =
     (if k = ''material'' then normalizeMaterial (field obj ''material'')
      else if has_own obj k then field obj k
      else if k = ''rotation'' then vec3 0 0 0
      else if k = ''scale'' then vec3 1 1 1
      else JUndefined)"
proof -
  have "succeeds (normalizeObject obj)" using assms by simp
  then have "\<not> is_nullish obj" by (simp add: succeeds_normalizeObject)
  then have "get obj ''material'' = Inr (field obj ''material'')" by (rule get_not_nullish)
  then have "obj' = JObj (AList.update ''material'' (normalizeMaterial (field obj ''material''))
                     (spread obj [(''rotation'', vec3 0 0 0), (''scale'', vec3 1 1 1)]))"
    using assms by (simp add: normalizeObject_def)
  then show ?thesis by (simp add: field_update field_spread)
qed

lemma mapM_nth:
  assumes "mapM f xs = Inr ys"
  shows "length ys = length xs" and "i < length xs \<Longrightarrow> f (xs ! i) = Inr (ys ! i)"
proof -
  have m: "map f xs = map Inr ys" using assms by (simp add: mapM_eq_Inr)
  then show "length ys = length xs" by (metis length_map)
  assume "i < length xs"
  then show "f (xs ! i) = Inr (ys ! i)"
    using m by (metis length_map nth_map)
qed

lemma normalizeObject_example: "normalizeObject example_object = Inr example_object_normalized"
  by (simp add: normalizeObject_def example_object_def example_object_normalized_def
      normalizeMaterial_def spread_def field_JObj)

lemma generateGeometry_example:
  "generateGeometry example_object_normalized = Inr ''new THREE.BoxGeometry(1, 1, 1)''"
  by (simp add: generateGeometry_def example_object_normalized_def or_else_def num_str_1)

lemma fields_example:
  "field example_scene ''objects'' = JArr [example_object]"
  "field example_normalized ''objects'' = JArr [example_object_normalized]"
  "field example_object_normalized ''rotation'' = vec3 0 0 0"
  "field example_object_normalized ''scale'' = vec3 1 1 1"
  "field (field example_object_normalized ''material'') ''metalness'' = JNum (Fin (1/2))"
  "field (field example_object_normalized ''material'') ''roughness'' = JNum (Fin (1/2))"
  "field (field example_object_normalized ''material'') ''wireframe'' = JBool False"
  "field (field example_object_normalized ''material'') ''type'' = JStr ''basic''"
  "field (field example_normalized ''camera'') ''fov'' = JNum (Fin 75)"
  "field example_normalized ''background'' = JStr ''#000000''"
  "field example_normalized ''lights'' = field example_scene ''lights''"
  by (simp_all add: example_scene_def example_normalized_def example_object_normalized_def)

subsection \<open>Blocks of lights\<close>




lemma get_Inr_field: "get v k = Inr x \<Longrightarrow> x = field v k \<and> (\<forall>k'. get v k' = Inr (field v k'))"
  by (cases v) auto


subsection \<open>Geometry\<close>




lemma dbl_0_4_times_0: "fmul (Fin 0) (dbl (2/5)) = Fin 0"
  by code_simp

lemma num_str_1_2: "num_str (fmul (Fin 3) (dbl (2/5))) = ''1.2000000000000002''"
  by code_simp

lemma num_str_3: "num_str (Fin 3) = ''3''"
  by code_simp

subsection \<open>The round trip\<close>







section \<open>The claims\<close>

text \<open>
  C4. For every candidate value \<^verbatim>\<open>validateDSL\<close> returns a boolean and never throws. It
  returns false when the candidate is no object, has no \<^verbatim>\<open>camera\<close> object, when
  \<^verbatim>\<open>camera.position\<close> or \<^verbatim>\<open>camera.lookAt\<close> is no array, or when \<^verbatim>\<open>lights\<close> or
  \<^verbatim>\<open>objects\<close> is no array; it returns true for every candidate that has these keys with
  this shape, whatever the arrays hold.
\<close>

theorem validateDSL_spec:
  "validateDSL dsl =
     Inr (is_object dsl
          \<and> isArray (field (field dsl ''camera'') ''position'')
          \<and> isArray (field (field dsl ''camera'') ''lookAt'')
          \<and> isArray (field dsl ''lights'')
          \<and> isArray (field dsl ''objects''))"
proof -
  have "is_object (field dsl ''camera'')"
    if "isArray (field (field dsl ''camera'') ''position'')"
    using that by (cases "field dsl ''camera''") (simp_all add: field_not_object)
  then have "well_shaped dsl \<longleftrightarrow>
     is_object dsl
     \<and> isArray (field (field dsl ''camera'') ''position'')
     \<and> isArray (field (field dsl ''camera'') ''lookAt'')
     \<and> isArray (field dsl ''lights'') \<and> isArray (field dsl ''objects'')"
    by (auto simp: well_shaped_iff)
  then show ?thesis by (simp add: validateDSL_eq)
qed

theorem validateDSL_spec_witness:
  "validateDSL (JObj [(''camera'', JObj [(''position'', JArr [JNull, JStr ''x'']),
                                        (''lookAt'', JArr [JObj []])]),
                      (''lights'', JArr [JNum (Fin 5)]),
                      (''objects'', JArr [JNull])]) = Inr True
   \<and> validateDSL (JObj [(''camera'', JObj [(''position'', JArr [])]),
                          (''lights'', JArr []), (''objects'', JArr [])]) = Inr False
   \<and> validateDSL (JStr ''camera'') = Inr False"
  by (simp add: validateDSL_spec field_not_object)

text \<open>
  C1, as the specification states it: for every candidate the validator accepts, the
  normalizer, the code generator and the document assembler complete without an error.
  The code refutes it: the validator does not look into \<^verbatim>\<open>objects\<close>, and on an entry
  \<^verbatim>\<open>null\<close> all three throw a \<^verbatim>\<open>TypeError\<close>.
\<close>

theorem total_on_validated_counterexample:
  "validateDSL null_object_scene = Inr True
   \<and> normalizeDSL null_object_scene = Inl TypeError
   \<and> generateScene null_object_scene = Inl TypeError
   \<and> generateHTML null_object_scene None = Inl TypeError"
  by (simp add: validateDSL_null_object normalizeDSL_null_object)
     (simp add: null_object_scene_def generateScene_def generateHTML_def generateSceneSetup_def
        generateCamera_def generateLights_def generateObjects_def generateObject_def
        generateGeometry_def map_join_def mapM_def join_def or_else_def)

text \<open>
  C1, amended: for every candidate the validator accepts, \<^verbatim>\<open>normalizeDSL\<close> completes
  exactly when no entry of \<^verbatim>\<open>objects\<close> is \<^verbatim>\<open>null\<close> or \<^verbatim>\<open>undefined\<close>. For every candidate of
  the declared type \<^verbatim>\<open>SceneDSL\<close> (the validator accepts each of them), \<^verbatim>\<open>normalizeDSL\<close>
  completes with a result of that type again, and \<^verbatim>\<open>generateScene\<close> and \<^verbatim>\<open>generateHTML\<close>
  complete on the candidate and on its normal form.
\<close>

theorem total_on_typed:
  "(validateDSL dsl = Inr True \<longrightarrow> succeeds (normalizeDSL dsl) = no_nullish_object dsl)
   \<and> (is_SceneDSL dsl \<longrightarrow>
        validateDSL dsl = Inr True
        \<and> succeeds (generateScene dsl) \<and> succeeds (generateHTML dsl title)
        \<and> (\<exists>d. normalizeDSL dsl = Inr d \<and> is_SceneDSL d
                 \<and> succeeds (generateScene d) \<and> succeeds (generateHTML d title)))"
proof (intro conjI impI)
  assume "validateDSL dsl = Inr True"
  then have "well_shaped dsl" by (simp add: validateDSL_eq)
  then show "succeeds (normalizeDSL dsl) = no_nullish_object dsl"
    by (rule succeeds_normalizeDSL)
next
  assume t: "is_SceneDSL dsl"
  have w: "well_shaped dsl" using t by (rule is_SceneDSL_well_shaped)
  then show "validateDSL dsl = Inr True" by (simp add: validateDSL_eq)
  show "succeeds (generateScene dsl)" using t by (rule succeeds_generateScene)
  show "succeeds (generateHTML dsl title)" using t by (rule succeeds_generateHTML)
  have "succeeds (normalizeDSL dsl)"
    using succeeds_normalizeDSL [OF w] is_SceneDSL_no_nullish [OF t] by simp
  then obtain d where d: "normalizeDSL dsl = Inr d" by (auto simp: succeeds_iff)
  have "is_SceneDSL d" using t d by (rule is_SceneDSL_normalizeDSL)
  then show "\<exists>d. normalizeDSL dsl = Inr d \<and> is_SceneDSL d
                 \<and> succeeds (generateScene d) \<and> succeeds (generateHTML d title)"
    using d succeeds_generateScene succeeds_generateHTML by blast
qed

theorem total_on_typed_witness:
  "validateDSL example_scene = Inr True \<and> is_SceneDSL example_scene
   \<and> no_nullish_object example_scene
   \<and> succeeds (normalizeDSL example_scene)
   \<and> succeeds (generateScene example_scene)
   \<and> succeeds (generateHTML example_scene None)
   \<and> succeeds (generateScene example_normalized)
   \<and> succeeds (generateHTML example_normalized None)"
  using total_on_typed [of example_scene None] is_SceneDSL_example normalizeDSL_example
  by auto

text \<open>
  C3. For every description the validator accepts, normalization is idempotent:
  normalizing the normal form gives the normal form again. (Where \<^verbatim>\<open>normalizeDSL\<close>
  throws, both sides of the equation are that error.)
\<close>

theorem normalizeDSL_idempotent:
  assumes "validateDSL dsl = Inr True"
  shows "bind (normalizeDSL dsl) normalizeDSL = normalizeDSL dsl"
proof (cases "normalizeDSL dsl")
  case (Inl e)
  then show ?thesis by simp
next
  case (Inr d)
  then show ?thesis by (simp add: normalizeDSL_idem)
qed

theorem normalizeDSL_idempotent_witness:
  "validateDSL example_scene = Inr True
   \<and> normalizeDSL example_scene = Inr example_normalized
   \<and> normalizeDSL example_normalized = Inr example_normalized"
  using normalizeDSL_idempotent [OF validateDSL_example]
  by (simp add: validateDSL_example normalizeDSL_example)




text \<open>
  C6. For every description the validator accepts, \<^verbatim>\<open>normalizeDSL\<close> fills in defaults
  and an explicit value wins over a default: the camera's \<^verbatim>\<open>fov\<close> is 75 when the camera
  has none, every other property of the camera is kept; \<^verbatim>\<open>background\<close> is
  \<^verbatim>\<open>'#000000'\<close> when it is falsy or absent; every object keeps its own properties,
  gets \<^verbatim>\<open>rotation\<close> \<^verbatim>\<open>[0,0,0]\<close> and \<^verbatim>\<open>scale\<close> \<^verbatim>\<open>[1,1,1]\<close> when it has none, and its
  material keeps its own properties and gets \<^verbatim>\<open>type\<close> \<^verbatim>\<open>'standard'\<close>, \<^verbatim>\<open>metalness\<close> 0.5,
  \<^verbatim>\<open>roughness\<close> 0.5 and \<^verbatim>\<open>wireframe\<close> false when it has none; \<^verbatim>\<open>lights\<close> is left as it
  is. The example object normalizes as the specification says, and its geometry is
  \<^verbatim>\<open>new THREE.BoxGeometry(1, 1, 1)\<close>.
\<close>

theorem normalizeDSL_defaults:
  assumes "validateDSL dsl = Inr True" and "normalizeDSL dsl = Inr d"
  shows
    "field (field d ''camera'') ''fov'' =
       (if has_own (field dsl ''camera'') ''fov'' then field (field dsl ''camera'') ''fov''
        else JNum (Fin 75))
     \<and> (has_own (field dsl ''camera'') k \<longrightarrow>
          field (field d ''camera'') k = field (field dsl ''camera'') k)
     \<and> field d ''background'' =
         (if truthy (field dsl ''background'') then field dsl ''background''
          else JStr ''#000000'')
     \<and> field d ''lights'' = field dsl ''lights''
     \<and> isArray (field d ''objects'')
     \<and> length (entries (field d ''objects'')) = length (entries (field dsl ''objects''))
     \<and> (i < length (entries (field dsl ''objects'')) \<longrightarrow>
          (let obj = entries (field dsl ''objects'') ! i;
               obj' = entries (field d ''objects'') ! i;
               m = field obj ''material'';
               m' = field obj' ''material''
           in (has_own obj k \<and> k \<noteq> ''material'' \<longrightarrow> field obj' k = field obj k)
              \<and> field obj' ''rotation'' =
                  (if has_own obj ''rotation'' then field obj ''rotation'' else vec3 0 0 0)
              \<and> field obj' ''scale'' =
                  (if has_own obj ''scale'' then field obj ''scale'' else vec3 1 1 1)
              \<and> (has_own m k \<longrightarrow> field m' k = field m k)
              \<and> field m' ''type'' =
                  (if has_own m ''type'' then field m ''type'' else JStr ''standard'')
              \<and> field m' ''metalness'' =
                  (if has_own m ''metalness'' then field m ''metalness'' else JNum (Fin (1/2)))
              \<and> field m' ''roughness'' =
                  (if has_own m ''roughness'' then field m ''roughness'' else JNum (Fin (1/2)))
              \<and> field m' ''wireframe'' =
                  (if has_own m ''wireframe'' then field m ''wireframe'' else JBool False)))
     \<and> normalizeObject example_object = Inr example_object_normalized
     \<and> generateGeometry example_object_normalized = Inr ''new THREE.BoxGeometry(1, 1, 1)''"
proof -
  have w: "well_shaped dsl" using assms(1) by (simp add: validateDSL_eq)
  have o: "is_object dsl" using w by (rule well_shaped_object)
  note f = normalizeDSL_fields [OF o assms(2)]
  obtain os where os: "field dsl ''objects'' = JArr os"
    using well_shaped_objects [OF w] by (cases "field dsl ''objects''") simp_all
  have "bind (mapM normalizeObject os) (\<lambda>ys. Inr (JArr ys)) = Inr (field d ''objects'')"
    using f(3) os by simp
  then obtain os' where os': "mapM normalizeObject os = Inr os'" "field d ''objects'' = JArr os'"
    by (auto simp: bind_eq_Inr)
  note n = mapM_nth [OF os'(1)]
  have per: "i < length os \<Longrightarrow> field (os' ! i) k' =
     (if k' = ''material'' then normalizeMaterial (field (os ! i) ''material'')
      else if has_own (os ! i) k' then field (os ! i) k'
      else if k' = ''rotation'' then vec3 0 0 0
      else if k' = ''scale'' then vec3 1 1 1
      else JUndefined)" for k'
    using n(2) [of i] by (rule normalizeObject_fields)
  have 1: "field (field d ''camera'') ''fov'' =
       (if has_own (field dsl ''camera'') ''fov'' then field (field dsl ''camera'') ''fov''
        else JNum (Fin 75))"
    by (simp add: f(1) normalizeCamera_fields)
  have 2: "has_own (field dsl ''camera'') k \<longrightarrow>
          field (field d ''camera'') k = field (field dsl ''camera'') k"
    by (simp add: f(1) normalizeCamera_fields)
  have 3: "field d ''background'' =
         (if truthy (field dsl ''background'') then field dsl ''background''
          else JStr ''#000000'')"
    by (simp add: f(2) or_else_def)
  have 5: "isArray (field d ''objects'')"
    and 6: "length (entries (field d ''objects'')) = length (entries (field dsl ''objects''))"
    by (simp_all add: os os' entries_def n(1))
  have 7: "i < length (entries (field dsl ''objects'')) \<longrightarrow>
          (let obj = entries (field dsl ''objects'') ! i;
               obj' = entries (field d ''objects'') ! i;
               m = field obj ''material'';
               m' = field obj' ''material''
           in (has_own obj k \<and> k \<noteq> ''material'' \<longrightarrow> field obj' k = field obj k)
              \<and> field obj' ''rotation'' =
                  (if has_own obj ''rotation'' then field obj ''rotation'' else vec3 0 0 0)
              \<and> field obj' ''scale'' =
                  (if has_own obj ''scale'' then field obj ''scale'' else vec3 1 1 1)
              \<and> (has_own m k \<longrightarrow> field m' k = field m k)
              \<and> field m' ''type'' =
                  (if has_own m ''type'' then field m ''type'' else JStr ''standard'')
              \<and> field m' ''metalness'' =
                  (if has_own m ''metalness'' then field m ''metalness'' else JNum (Fin (1/2)))
              \<and> field m' ''roughness'' =
                  (if has_own m ''roughness'' then field m ''roughness'' else JNum (Fin (1/2)))
              \<and> field m' ''wireframe'' =
                  (if has_own m ''wireframe'' then field m ''wireframe'' else JBool False))"
    by (simp add: os os' entries_def per normalizeMaterial_fields Let_def)
  show ?thesis
    using 1 2 3 f(4) 5 6 7 normalizeObject_example generateGeometry_example by blast
qed

theorem normalizeDSL_defaults_witness:
  "validateDSL example_scene = Inr True
   \<and> normalizeDSL example_scene = Inr example_normalized
   \<and> field (field example_normalized ''camera'') ''fov'' = JNum (Fin 75)
   \<and> field example_normalized ''background'' = JStr ''#000000''
   \<and> field example_normalized ''lights'' = field example_scene ''lights''
   \<and> field example_object_normalized ''rotation'' = vec3 0 0 0
   \<and> field example_object_normalized ''scale'' = vec3 1 1 1
   \<and> field (field example_object_normalized ''material'') ''type'' = JStr ''basic''
   \<and> field (field example_object_normalized ''material'') ''metalness'' = JNum (Fin (1/2))
   \<and> field (field example_object_normalized ''material'') ''roughness'' = JNum (Fin (1/2))
   \<and> field (field example_object_normalized ''material'') ''wireframe'' = JBool False
   \<and> generateGeometry example_object_normalized = Inr ''new THREE.BoxGeometry(1, 1, 1)''"
  using normalizeDSL_defaults [OF validateDSL_example normalizeDSL_example, of "''fov''" 0]
  by (simp add: validateDSL_example normalizeDSL_example fields_example)



text \<open>
  C8. An object whose type is none of the six known ones gets the geometry
  \<^verbatim>\<open>new THREE.BoxGeometry(1, 1, 1)\<close>, and a light whose type is none of the four known
  ones gets the empty block. (The type of the light is a value with a string form, as
  the variable name is built from it before the type is examined: a string, a number, a
  missing type.)
\<close>

theorem unknown_types:
  "(get obj ''type'' = Inr t
      \<and> t \<notin> set (map JStr [''cube'', ''sphere'', ''plane'', ''cylinder'', ''cone'', ''torus''])
      \<longrightarrow> generateGeometry obj = Inr ''new THREE.BoxGeometry(1, 1, 1)'')
   \<and> (get light ''type'' = Inr t' \<and> to_string t' = Inr s
      \<and> t' \<notin> set (map JStr [''ambient'', ''directional'', ''point'', ''spot''])
      \<longrightarrow> generateLight light i = Inr [])"
  by (auto simp: generateGeometry_def generateLight_def Let_def)

theorem unknown_types_witness:
  "get (JObj [(''type'', JStr ''pyramid'')]) ''type'' = Inr (JStr ''pyramid'')
   \<and> generateGeometry (JObj [(''type'', JStr ''pyramid'')]) = Inr ''new THREE.BoxGeometry(1, 1, 1)''
   \<and> get (JObj [(''type'', JStr ''laser'')]) ''type'' = Inr (JStr ''laser'')
   \<and> generateLight (JObj [(''type'', JStr ''laser'')]) 0 = Inr []
   \<and> get (JObj []) ''type'' = Inr JUndefined
   \<and> generateLight (JObj []) 0 = Inr []"
  using unknown_types [of "JObj [(''type'', JStr ''pyramid'')]" "JStr ''pyramid''"
          "JObj [(''type'', JStr ''laser'')]" "JStr ''laser''" "''laser''" 0]
        unknown_types [of "JObj []" JUndefined "JObj []" JUndefined "''undefined''" 0]
  by simp

text \<open>
  C9, as the specification states it: the minor radius of a torus of radius \<open>r\<close> is
  emitted as \<open>0.4 * r\<close>. The code refutes it at \<open>r = 0\<close>: the radius 0 is falsy and
  replaced by 1, so the emitted minor radius is 0.4, and not the product 0.
\<close>

theorem torus_minor_radius_counterexample:
  "generateGeometry torus_radius_0 = Inr ''new THREE.TorusGeometry(1, 0.4, 16, 100)''
   \<and> num_str (fmul (Fin 0) (dbl (2/5))) = ''0''"
  by (simp add: generateGeometry_def torus_radius_0_def or_else_def to_number_def
      num_str_1 num_str_0_4 dbl_0_4_times_0 num_str_0)

text \<open>
  C9, amended: for a torus whose radius is a number \<open>r\<close> other than 0 and \<^verbatim>\<open>NaN\<close>, the
  emitted minor radius is the numeral of the double \<open>r * 0.4\<close>, the product rounded as
  doubles are (for \<open>r = 3\<close> it reads \<^verbatim>\<open>1.2000000000000002\<close>); for a torus whose radius
  is absent or falsy the emitted radii are 1 and 0.4.
\<close>

theorem torus_minor_radius:
  assumes "get obj ''type'' = Inr (JStr ''torus'')"
  shows
    "(field obj ''radius'' = JNum r \<and> truthy (JNum r) \<longrightarrow>
        generateGeometry obj =
          Inr (''new THREE.TorusGeometry('' @ num_str r @ '', '' @ num_str (fmul r (dbl (2/5)))
               @ '', 16, 100)''))
     \<and> (\<not> truthy (field obj ''radius'') \<longrightarrow>
        generateGeometry obj = Inr ''new THREE.TorusGeometry(1, 0.4, 16, 100)'')"
  using assms get_Inr_field [OF assms]
  by (auto simp: generateGeometry_def or_else_def to_number_def num_str_1 num_str_0_4
      simp del: truthy.simps)

theorem torus_minor_radius_witness:
  "get torus_radius_3 ''type'' = Inr (JStr ''torus'')
   \<and> generateGeometry torus_radius_3 =
       Inr ''new THREE.TorusGeometry(3, 1.2000000000000002, 16, 100)''
   \<and> get torus_radius_0 ''type'' = Inr (JStr ''torus'')
   \<and> \<not> truthy (field torus_radius_0 ''radius'')
   \<and> generateGeometry torus_radius_0 = Inr ''new THREE.TorusGeometry(1, 0.4, 16, 100)''"
proof -
  have 3: "get torus_radius_3 ''type'' = Inr (JStr ''torus'')"
    and 0: "get torus_radius_0 ''type'' = Inr (JStr ''torus'')"
    by (simp_all add: torus_radius_3_def torus_radius_0_def)
  have f: "field torus_radius_3 ''radius'' = JNum (Fin 3)" "truthy (JNum (Fin 3))"
    "\<not> truthy (field torus_radius_0 ''radius'')"
    by (simp_all add: torus_radius_3_def torus_radius_0_def)
  show ?thesis
    using torus_minor_radius [OF 3, of "Fin 3"] torus_minor_radius [OF 0, of "Fin 0"] 3 0 f
    by (simp add: num_str_3 num_str_1_2)
qed






end
